theory Spec2Isabelle
  imports Main "HOL-Library.Sublist"
begin


section \<open>Python values and built-ins used by gcp_cost_analyzer.py\<close>

text \<open>
  The analyzer shells out to \<^verbatim>\<open>gcloud\<close>, parses the captured text with
  \<^verbatim>\<open>json.loads\<close> and renders text sections. Exceptions are values of type
  \<open>error\<close>; a function that may raise returns \<open>error + 'a\<close> with \<open>Inl\<close> the exception.
\<close>

datatype error =
  KeyError | TypeError | AttributeError | ValueError | OverflowError
  | JSONDecodeError | RecursionError | OSError

text \<open>
  What \<^verbatim>\<open>json.loads\<close> returns. A JSON object is kept as its items in insertion
  order, looked up with \<open>map_of\<close>. The payload of a float is left as a type parameter:
  the program never computes with floats, it only tests, converts or prints them.
\<close>

datatype 'f json =
  JNull
  | JBool bool
  | JInt int
  | JFloat 'f
  | JStr string
  | JArr "'f json list"
  | JObj "(string \<times> 'f json) list"

text \<open>
  The library functions of Python that are not code of this repository are parameters:
  \<^verbatim>\<open>json.loads\<close> (an exception as \<open>Inl\<close>), \<^verbatim>\<open>int\<close> on a string
  (\<open>None\<close> is ValueError) and on a float, the truth value of a float, and
  \<^verbatim>\<open>str\<close> of a float, list or dict as an f-string inserts it.
\<close>

record 'f python =
  json_loads :: "string \<Rightarrow> error + 'f json"
  int_of_str :: "string \<Rightarrow> int option"
  int_of_float :: "'f \<Rightarrow> error + int"
  float_truthy :: "'f \<Rightarrow> bool"
  str_other :: "'f json \<Rightarrow> string"

text \<open>The outcome of \<^verbatim>\<open>subprocess.run(..., check=True)\<close>: captured standard output,
  a non-zero exit (CalledProcessError, with the captured standard error), or a failure
  to start the process, which \<^verbatim>\<open>run_gcloud\<close> does not catch.\<close>

datatype proc = Completed string | CalledProcessError string | LaunchFailure

record env =
  gcloud :: "string list \<Rightarrow> proc"
  today :: string

subsection \<open>Strings\<close>

definition nl :: string where
  "nl = [CHR 0x0A]"

definition sep50 :: string where
  "sep50 = replicate 50 (CHR ''='')"

fun str_split :: "char \<Rightarrow> string \<Rightarrow> string list" where
  "str_split c [] = [[]]"
| "str_split c (x # xs) =
     (if x = c then [] # str_split c xs
      else (case str_split c xs of
              [] \<Rightarrow> [[x]]
            | w # ws \<Rightarrow> (x # w) # ws))"

text \<open>\<^verbatim>\<open>s.split('/')[-1]\<close>: the split is never empty, so the index is in range.\<close>

definition last_segment :: "string \<Rightarrow> string" where
  "last_segment s = last (str_split (CHR ''/'') s)"

definition lower_char :: "char \<Rightarrow> char" where
  "lower_char c =
     (if (65::nat) \<le> of_char c \<and> of_char c \<le> (90::nat)
      then char_of (of_char c + (32::nat)) else c)"

definition lower :: "string \<Rightarrow> string" where
  "lower s = map lower_char s"

fun join :: "string \<Rightarrow> string list \<Rightarrow> string" where
  "join d [] = []"
| "join d [x] = x"
| "join d (x # y # ys) = x @ d @ join d (y # ys)"

definition digit_char :: "nat \<Rightarrow> char" where
  "digit_char d = char_of (48 + d)"

function show_nat :: "nat \<Rightarrow> string" where
  "show_nat n = (if n < 10 then [digit_char n] else show_nat (n div 10) @ [digit_char (n mod 10)])"
  by pat_completeness auto
termination
  by (relation "measure (\<lambda>n. n)") auto

definition show_int :: "int \<Rightarrow> string" where
  "show_int i = (if i < 0 then CHR ''-'' # show_nat (nat (- i)) else show_nat (nat i))"

text \<open>
  Converting an int to its decimal text raises ValueError when the number has more than
  4300 digits (the interpreter's limit on int and str conversion). \<open>int_str_limit\<close> is
  the least such magnitude. A length that \<^verbatim>\<open>len\<close> returned is a machine-size number
  and an int that \<^verbatim>\<open>json.loads\<close> returned was read from at most 4300 digits, so their
  conversion cannot fail; a sum of such ints can pass the limit.
\<close>

definition int_str_limit :: int where
  "int_str_limit = 10 ^ 4300"

definition str_of_int :: "int \<Rightarrow> error + string" where
  "str_of_int i = (if int_str_limit \<le> \<bar>i\<bar> then Inl ValueError else Inr (show_int i))"

subsection \<open>Operations on parsed values\<close>

fun truthy :: "'f python \<Rightarrow> 'f json \<Rightarrow> bool" where
  "truthy P JNull = False"
| "truthy P (JBool b) = b"
| "truthy P (JInt n) = (n \<noteq> 0)"
| "truthy P (JFloat x) = float_truthy P x"
| "truthy P (JStr s) = (s \<noteq> [])"
| "truthy P (JArr xs) = (xs \<noteq> [])"
| "truthy P (JObj kvs) = (kvs \<noteq> [])"

text \<open>\<^verbatim>\<open>v[k]\<close> with a string key.\<close>

fun subscript :: "'f json \<Rightarrow> string \<Rightarrow> error + 'f json" where
  "subscript (JObj kvs) k = (case map_of kvs k of None \<Rightarrow> Inl KeyError | Some v \<Rightarrow> Inr v)"
| "subscript v k = Inl TypeError"

text \<open>\<^verbatim>\<open>k in v\<close> with a string \<open>k\<close>: a key of a dict, an element of a list,
  a substring of a string; anything else is not iterable.\<close>

fun contains :: "string \<Rightarrow> 'f json \<Rightarrow> error + bool" where
  "contains k (JObj kvs) = Inr (k \<in> set (map fst kvs))"
| "contains k (JArr xs) = Inr (JStr k \<in> set xs)"
| "contains k (JStr s) = Inr (sublist k s)"
| "contains k v = Inl TypeError"

text \<open>The items a \<^verbatim>\<open>for\<close> loop or a comprehension visits.\<close>

fun iterate :: "'f json \<Rightarrow> error + 'f json list" where
  "iterate (JArr xs) = Inr xs"
| "iterate (JObj kvs) = Inr (map JStr (remdups (map fst kvs)))"
| "iterate (JStr s) = Inr (map (\<lambda>c. JStr [c]) s)"
| "iterate v = Inl TypeError"

fun py_len :: "'f json \<Rightarrow> error + nat" where
  "py_len (JArr xs) = Inr (length xs)"
| "py_len (JObj kvs) = Inr (length (remdups (map fst kvs)))"
| "py_len (JStr s) = Inr (length s)"
| "py_len v = Inl TypeError"

text \<open>\<^verbatim>\<open>int(v)\<close>.\<close>

fun py_int :: "'f python \<Rightarrow> 'f json \<Rightarrow> error + int" where
  "py_int P (JInt n) = Inr n"
| "py_int P (JBool b) = Inr (if b then 1 else 0)"
| "py_int P (JStr s) = (case int_of_str P s of None \<Rightarrow> Inl ValueError | Some n \<Rightarrow> Inr n)"
| "py_int P (JFloat x) = int_of_float P x"
| "py_int P v = Inl TypeError"

text \<open>What an f-string inserts for \<^verbatim>\<open>{v}\<close>.\<close>

fun fmt :: "'f python \<Rightarrow> 'f json \<Rightarrow> string" where
  "fmt P (JStr s) = s"
| "fmt P (JInt n) = show_int n"
| "fmt P (JBool b) = (if b then ''True'' else ''False'')"
| "fmt P JNull = ''None''"
| "fmt P v = str_other P v"

text \<open>\<^verbatim>\<open>v.split('/')[-1]\<close> and \<^verbatim>\<open>v.lower()\<close>: only a string has the method.\<close>

fun split_last :: "'f json \<Rightarrow> error + string" where
  "split_last (JStr s) = Inr (last_segment s)"
| "split_last v = Inl AttributeError"

fun py_lower :: "'f json \<Rightarrow> error + string" where
  "py_lower (JStr s) = Inr (lower s)"
| "py_lower v = Inl AttributeError"

text \<open>\<^verbatim>\<open>d.get(k, default)\<close>: only a dict has the method.\<close>

fun py_get :: "'f json \<Rightarrow> string \<Rightarrow> 'f json \<Rightarrow> error + 'f json" where
  "py_get (JObj kvs) k d = Inr (case map_of kvs k of None \<Rightarrow> d | Some v \<Rightarrow> v)"
| "py_get v k d = Inl AttributeError"

text \<open>A comprehension \<^verbatim>\<open>[x for x in xs if p(x)]\<close> and a loop that appends one
  rendered line per item; either stops at the first exception.\<close>

fun filter_err :: "('a \<Rightarrow> error + bool) \<Rightarrow> 'a list \<Rightarrow> error + 'a list" where
  "filter_err p [] = Inr []"
| "filter_err p (x # xs) =
     (case p x of
        Inl e \<Rightarrow> Inl e
      | Inr b \<Rightarrow> (case filter_err p xs of
                   Inl e \<Rightarrow> Inl e
                 | Inr ys \<Rightarrow> Inr (if b then x # ys else ys)))"

fun concat_err :: "('a \<Rightarrow> error + string) \<Rightarrow> 'a list \<Rightarrow> error + string" where
  "concat_err f [] = Inr []"
| "concat_err f (x # xs) =
     (case f x of
        Inl e \<Rightarrow> Inl e
      | Inr l \<Rightarrow> (case concat_err f xs of
                   Inl e \<Rightarrow> Inl e
                 | Inr ls \<Rightarrow> Inr (l @ ls)))"

section \<open>run_gcloud and get_project_info\<close>

text \<open>Each function that prints returns the printed lines with its result.\<close>

definition run_gcloud :: "env \<Rightarrow> string list \<Rightarrow> string list \<times> (error + string option)" where
  "run_gcloud E args =
     (case gcloud E args of
        Completed out \<Rightarrow> ([], Inr (Some out))
      | CalledProcessError err \<Rightarrow>
          ([''Error running command: '' @ join '' '' (''gcloud'' # args), ''Error: '' @ err],
           Inr None)
      | LaunchFailure \<Rightarrow> ([], Inl OSError))"

text \<open>\<^verbatim>\<open>if not x\<close> on what \<^verbatim>\<open>run_gcloud\<close> returned: None or the empty string.\<close>

fun no_data :: "string option \<Rightarrow> bool" where
  "no_data None = True"
| "no_data (Some s) = (s = [])"

definition get_project_info ::
  "'f python \<Rightarrow> env \<Rightarrow> string list \<times> (error + 'f json option)" where
  "get_project_info P E =
     (case run_gcloud E [''config'', ''list'', ''--format=json''] of
        (out, Inl e) \<Rightarrow> (''Getting project information...'' # out, Inl e)
      | (out, Inr r) \<Rightarrow>
          (''Getting project information...'' # out,
           (case r of
              None \<Rightarrow> Inr None
            | Some s \<Rightarrow>
                if s = [] then Inr None
                else (case json_loads P s of Inl e \<Rightarrow> Inl e | Inr v \<Rightarrow> Inr (Some v)))))"

section \<open>analyze_compute_instances\<close>

definition large_types :: "string list" where
  "large_types =
     [''n1-standard-8'', ''n1-standard-16'', ''n2-standard-8'', ''n2-standard-16'',
      ''e2-standard-8'', ''e2-standard-16'']"

definition compute_header :: string where
  "compute_header = ''COMPUTE ENGINE OPTIMIZATION RECOMMENDATIONS:'' @ nl @ sep50 @ nl @ nl"

text \<open>The machine-type tally: \<^verbatim>\<open>machine_types\<close> is a dict, which keeps its keys
  in the order of their first insertion.\<close>

fun bump :: "string \<Rightarrow> (string \<times> nat) list \<Rightarrow> (string \<times> nat) list" where
  "bump k [] = [(k, 1)]"
| "bump k ((k', n) # rest) = (if k = k' then (k', n + 1) # rest else (k', n) # bump k rest)"

definition machine_type_of :: "'f json \<Rightarrow> error + string" where
  "machine_type_of i =
     (case subscript i ''machineType'' of Inl e \<Rightarrow> Inl e | Inr v \<Rightarrow> split_last v)"

fun count_machine_types ::
  "'f json list \<Rightarrow> (string \<times> nat) list \<Rightarrow> error + (string \<times> nat) list" where
  "count_machine_types [] acc = Inr acc"
| "count_machine_types (i # rest) acc =
     (case machine_type_of i of
        Inl e \<Rightarrow> Inl e
      | Inr mt \<Rightarrow> count_machine_types rest (bump mt acc))"

definition summary_row :: "string \<times> nat \<Rightarrow> string" where
  "summary_row r = ''  - '' @ fst r @ '': '' @ show_nat (snd r) @ '' instances'' @ nl"

definition is_stopped :: "'f json \<Rightarrow> error + bool" where
  "is_stopped i =
     (case subscript i ''status'' of Inl e \<Rightarrow> Inl e | Inr v \<Rightarrow> Inr (v = JStr ''TERMINATED''))"

text \<open>\<^verbatim>\<open>any(large_type in mt for large_type in [...])\<close>: the names are tried in order
  and the first hit ends the search.\<close>

fun any_in :: "string list \<Rightarrow> 'f json \<Rightarrow> error + bool" where
  "any_in [] v = Inr False"
| "any_in (t # ts) v =
     (case contains t v of
        Inl e \<Rightarrow> Inl e
      | Inr b \<Rightarrow> if b then Inr True else any_in ts v)"

definition is_large :: "'f json \<Rightarrow> error + bool" where
  "is_large i =
     (case subscript i ''machineType'' of Inl e \<Rightarrow> Inl e | Inr v \<Rightarrow> any_in large_types v)"

definition stopped_line :: "'f python \<Rightarrow> 'f json \<Rightarrow> error + string" where
  "stopped_line P i =
     (case subscript i ''name'' of
        Inl e \<Rightarrow> Inl e
      | Inr n \<Rightarrow>
          (case subscript i ''zone'' of
             Inl e \<Rightarrow> Inl e
           | Inr z \<Rightarrow>
               (case split_last z of
                  Inl e \<Rightarrow> Inl e
                | Inr zs \<Rightarrow> Inr (''   - '' @ fmt P n @ '' (Zone: '' @ zs @ '')'' @ nl))))"

definition large_line :: "'f python \<Rightarrow> 'f json \<Rightarrow> error + string" where
  "large_line P i =
     (case machine_type_of i of
        Inl e \<Rightarrow> Inl e
      | Inr mt \<Rightarrow>
          (case subscript i ''name'' of
             Inl e \<Rightarrow> Inl e
           | Inr n \<Rightarrow>
               (case subscript i ''zone'' of
                  Inl e \<Rightarrow> Inl e
                | Inr z \<Rightarrow>
                    (case split_last z of
                       Inl e \<Rightarrow> Inl e
                     | Inr zs \<Rightarrow>
                         Inr (''   - '' @ fmt P n @ '' (Type: '' @ mt @ '', Zone: '' @ zs @ '')''
                              @ nl)))))"

definition stopped_block :: "'f python \<Rightarrow> 'f json list \<Rightarrow> error + string" where
  "stopped_block P stopped =
     (if stopped = [] then Inr []
      else (case concat_err (stopped_line P) stopped of
              Inl e \<Rightarrow> Inl e
            | Inr ls \<Rightarrow>
                Inr (nl @ ''1. You have '' @ show_nat (length stopped)
                     @ '' stopped instances that are still incurring storage costs:'' @ nl
                     @ ls
                     @ ''   Recommendation: Delete unused instances to avoid storage charges.''
                     @ nl)))"

definition large_block :: "'f python \<Rightarrow> 'f json list \<Rightarrow> error + string" where
  "large_block P large =
     (if large = [] then Inr []
      else (case concat_err (large_line P) large of
              Inl e \<Rightarrow> Inl e
            | Inr ls \<Rightarrow>
                Inr (nl @ ''2. You have '' @ show_nat (length large)
                     @ '' large instances that might be oversized:'' @ nl
                     @ ls
                     @ ''   Recommendation: Monitor CPU and memory usage and consider downsizing if utilization is low.''
                     @ nl)))"

definition compute_advice :: string where
  "compute_advice =
     nl @ ''3. Sustained Use Discount Opportunities:'' @ nl
     @ ''   - Instances running continuously for a month automatically receive sustained use discounts.'' @ nl
     @ ''   - Consider converting eligible workloads to committed use contracts for 1-3 year terms to save 20-60%.'' @ nl
     @ nl @ ''4. Preemptible VM Opportunities:'' @ nl
     @ ''   - For fault-tolerant, batch processing workloads, consider using preemptible VMs to save up to 80%.'' @ nl"

text \<open>Lines 47 to 91: the report for a parsed, truthy listing.\<close>

definition compute_findings :: "'f python \<Rightarrow> 'f json \<Rightarrow> error + string" where
  "compute_findings P instances_data =
     (case iterate instances_data of
        Inl e \<Rightarrow> Inl e
      | Inr items \<Rightarrow>
     (case count_machine_types items [] of
        Inl e \<Rightarrow> Inl e
      | Inr machine_types \<Rightarrow>
     (case filter_err is_stopped items of
        Inl e \<Rightarrow> Inl e
      | Inr stopped_instances \<Rightarrow>
     (case stopped_block P stopped_instances of
        Inl e \<Rightarrow> Inl e
      | Inr sb \<Rightarrow>
     (case filter_err is_large items of
        Inl e \<Rightarrow> Inl e
      | Inr large_instances \<Rightarrow>
     (case large_block P large_instances of
        Inl e \<Rightarrow> Inl e
      | Inr lb \<Rightarrow>
          Inr (compute_header
               @ ''Instance Types Summary:'' @ nl
               @ concat (map summary_row machine_types)
               @ nl @ ''Optimization Opportunities:'' @ nl
               @ sb @ lb @ compute_advice)))))))"

text \<open>Lines 32 to 45, then the findings: what the analyzer returns for a fetched text.\<close>

definition compute_report :: "'f python \<Rightarrow> string option \<Rightarrow> error + string" where
  "compute_report P instances =
     (case instances of
        None \<Rightarrow> Inr ''No Compute Engine instances found or error retrieving data.''
      | Some s \<Rightarrow>
          if s = [] then Inr ''No Compute Engine instances found or error retrieving data.''
          else (case json_loads P s of
                  Inl e \<Rightarrow>
                    if e = JSONDecodeError then Inr ''Error parsing Compute Engine data.''
                    else Inl e
                | Inr instances_data \<Rightarrow>
                    if \<not> truthy P instances_data
                    then Inr (compute_header @ ''No Compute Engine instances found.'' @ nl)
                    else compute_findings P instances_data))"

definition analyze_compute_instances ::
  "'f python \<Rightarrow> env \<Rightarrow> string list \<times> (error + string)" where
  "analyze_compute_instances P E =
     (case run_gcloud E [''compute'', ''instances'', ''list'', ''--format=json''] of
        (out, Inl e) \<Rightarrow> (''Analyzing Compute Engine instances...'' # out, Inl e)
      | (out, Inr instances) \<Rightarrow>
          (''Analyzing Compute Engine instances...'' # out, compute_report P instances))"

section \<open>analyze_storage\<close>

definition storage_header :: string where
  "storage_header = ''STORAGE OPTIMIZATION RECOMMENDATIONS:'' @ nl @ sep50 @ nl @ nl"

definition storage_class_guidance :: string where
  "storage_class_guidance =
     ''   Storage Class Recommendations:'' @ nl
     @ ''   - Standard Storage: Use for frequently accessed data (multiple times a month)'' @ nl
     @ ''   - Nearline Storage: Use for data accessed less than once a month (20% cheaper)'' @ nl
     @ ''   - Coldline Storage: Use for data accessed less than once a quarter (50% cheaper)'' @ nl
     @ ''   - Archive Storage: Use for data accessed less than once a year (90% cheaper)'' @ nl
     @ ''   Recommendation: Set up Object Lifecycle Management to automatically transition objects to cheaper storage classes.'' @ nl"

text \<open>Lines 107 to 121. The \<^verbatim>\<open>try\<close> catches JSONDecodeError only, so a parsed value
  without a length raises out of the analyzer.\<close>

definition bucket_part :: "'f python \<Rightarrow> string option \<Rightarrow> error + string" where
  "bucket_part P buckets =
     (case buckets of
        None \<Rightarrow> Inr (''No Cloud Storage buckets found or error retrieving data.'' @ nl)
      | Some s \<Rightarrow>
          if s = [] then Inr (''No Cloud Storage buckets found or error retrieving data.'' @ nl)
          else (case json_loads P s of
                  Inl e \<Rightarrow>
                    if e = JSONDecodeError
                    then Inr (''1. You have Cloud Storage buckets, but couldn't parse the data.'' @ nl
                              @ storage_class_guidance)
                    else Inl e
                | Inr buckets_data \<Rightarrow>
                    (case py_len buckets_data of
                       Inl e \<Rightarrow> Inl e
                     | Inr n \<Rightarrow>
                         Inr (''1. You have '' @ show_nat n @ '' Cloud Storage buckets.'' @ nl
                              @ storage_class_guidance))))"

text \<open>\<^verbatim>\<open>'users' not in d or not d['users']\<close>.\<close>

definition is_unattached :: "'f python \<Rightarrow> 'f json \<Rightarrow> error + bool" where
  "is_unattached P d =
     (case contains ''users'' d of
        Inl e \<Rightarrow> Inl e
      | Inr b \<Rightarrow>
          if \<not> b then Inr True
          else (case subscript d ''users'' of
                  Inl e \<Rightarrow> Inl e
                | Inr u \<Rightarrow> Inr (\<not> truthy P u)))"

text \<open>\<^verbatim>\<open>sum(int(d['sizeGb']) for d in unattached_disks)\<close>.\<close>

fun total_size :: "'f python \<Rightarrow> 'f json list \<Rightarrow> error + int" where
  "total_size P [] = Inr 0"
| "total_size P (d # ds) =
     (case subscript d ''sizeGb'' of
        Inl e \<Rightarrow> Inl e
      | Inr v \<Rightarrow>
          (case py_int P v of
             Inl e \<Rightarrow> Inl e
           | Inr n \<Rightarrow>
               (case total_size P ds of
                  Inl e \<Rightarrow> Inl e
                | Inr t \<Rightarrow> Inr (n + t))))"

definition disk_line :: "'f python \<Rightarrow> 'f json \<Rightarrow> error + string" where
  "disk_line P disk =
     (case subscript disk ''name'' of
        Inl e \<Rightarrow> Inl e
      | Inr n \<Rightarrow>
          (case subscript disk ''sizeGb'' of
             Inl e \<Rightarrow> Inl e
           | Inr g \<Rightarrow>
               (case subscript disk ''type'' of
                  Inl e \<Rightarrow> Inl e
                | Inr t \<Rightarrow>
                    (case split_last t of
                       Inl e \<Rightarrow> Inl e
                     | Inr ts \<Rightarrow>
                         Inr (''   - '' @ fmt P n @ '' (Size: '' @ fmt P g @ '' GB, Type: '' @ ts
                              @ '')'' @ nl)))))"

text \<open>Lines 132 to 137. The sum is taken before the lines of the disks are rendered, and
  it is converted to text only after them, for the total line.\<close>

definition unattached_block :: "'f python \<Rightarrow> 'f json list \<Rightarrow> error + string" where
  "unattached_block P unattached =
     (if unattached = [] then Inr []
      else (case total_size P unattached of
              Inl e \<Rightarrow> Inl e
            | Inr total_size_gb \<Rightarrow>
                (case concat_err (disk_line P) unattached of
                   Inl e \<Rightarrow> Inl e
                 | Inr ls \<Rightarrow>
                     (case str_of_int total_size_gb of
                        Inl e \<Rightarrow> Inl e
                      | Inr total_text \<Rightarrow>
                          Inr (''1. You have '' @ show_nat (length unattached)
                               @ '' unattached persistent disks that are incurring costs:'' @ nl
                               @ ls
                               @ ''   Total unattached disk space: '' @ total_text @ '' GB'' @ nl
                               @ ''   Recommendation: Delete unattached disks or create snapshots before deletion if the data is needed.''
                               @ nl)))))"

text \<open>\<^verbatim>\<open>'ssd' in d['type'].lower()\<close>.\<close>

definition is_ssd :: "'f json \<Rightarrow> error + bool" where
  "is_ssd d =
     (case subscript d ''type'' of
        Inl e \<Rightarrow> Inl e
      | Inr t \<Rightarrow>
          (case py_lower t of
             Inl e \<Rightarrow> Inl e
           | Inr l \<Rightarrow> Inr (sublist ''ssd'' l)))"

definition ssd_block :: "'f json list \<Rightarrow> string" where
  "ssd_block ssd =
     (if ssd = [] then []
      else nl @ ''2. You have '' @ show_nat (length ssd) @ '' SSD persistent disks:'' @ nl
           @ ''   Recommendation: For non-performance-critical workloads, consider using Standard persistent disks to reduce costs.''
           @ nl)"

text \<open>Lines 129 to 143, for a parsed listing.\<close>

definition disk_findings :: "'f python \<Rightarrow> 'f json \<Rightarrow> error + string" where
  "disk_findings P disks_data =
     (case iterate disks_data of
        Inl e \<Rightarrow> Inl e
      | Inr items \<Rightarrow>
     (case filter_err (is_unattached P) items of
        Inl e \<Rightarrow> Inl e
      | Inr unattached_disks \<Rightarrow>
     (case unattached_block P unattached_disks of
        Inl e \<Rightarrow> Inl e
      | Inr ub \<Rightarrow>
     (case filter_err is_ssd items of
        Inl e \<Rightarrow> Inl e
      | Inr ssd_disks \<Rightarrow> Inr (ub @ ssd_block ssd_disks)))))"

definition disk_part :: "'f python \<Rightarrow> string option \<Rightarrow> error + string" where
  "disk_part P disks =
     (case disks of
        None \<Rightarrow> Inr (''No persistent disks found or error retrieving data.'' @ nl)
      | Some s \<Rightarrow>
          if s = [] then Inr (''No persistent disks found or error retrieving data.'' @ nl)
          else (case json_loads P s of
                  Inl e \<Rightarrow>
                    if e = JSONDecodeError then Inr (''Error parsing disk data.'' @ nl)
                    else Inl e
                | Inr disks_data \<Rightarrow> disk_findings P disks_data))"

definition storage_report ::
  "'f python \<Rightarrow> string option \<Rightarrow> string option \<Rightarrow> error + string" where
  "storage_report P buckets disks =
     (case bucket_part P buckets of
        Inl e \<Rightarrow> Inl e
      | Inr bp \<Rightarrow>
          (case disk_part P disks of
             Inl e \<Rightarrow> Inl e
           | Inr dp \<Rightarrow>
               Inr (storage_header
                    @ ''Cloud Storage Optimization:'' @ nl @ bp
                    @ nl @ ''Persistent Disk Optimization:'' @ nl @ dp)))"

definition analyze_storage :: "'f python \<Rightarrow> env \<Rightarrow> string list \<times> (error + string)" where
  "analyze_storage P E =
     (case run_gcloud E [''storage'', ''ls'', ''--format=json''] of
        (o1, Inl e) \<Rightarrow> (''Analyzing storage resources...'' # o1, Inl e)
      | (o1, Inr buckets) \<Rightarrow>
          (case run_gcloud E [''compute'', ''disks'', ''list'', ''--format=json''] of
             (o2, Inl e) \<Rightarrow> (''Analyzing storage resources...'' # o1 @ o2, Inl e)
           | (o2, Inr disks) \<Rightarrow>
               (''Analyzing storage resources...'' # o1 @ o2, storage_report P buckets disks)))"

section \<open>analyze_network\<close>

definition network_header :: string where
  "network_header = ''NETWORKING OPTIMIZATION RECOMMENDATIONS:'' @ nl @ sep50 @ nl @ nl"

definition is_reserved :: "'f json \<Rightarrow> error + bool" where
  "is_reserved a =
     (case subscript a ''status'' of Inl e \<Rightarrow> Inl e | Inr v \<Rightarrow> Inr (v = JStr ''RESERVED''))"

text \<open>\<^verbatim>\<open>in_use = 'users' in ip and ip['users']\<close>, then the line of the address.\<close>

definition ip_line :: "'f python \<Rightarrow> 'f json \<Rightarrow> error + string" where
  "ip_line P ip =
     (case contains ''users'' ip of
        Inl e \<Rightarrow> Inl e
      | Inr b \<Rightarrow>
     (case (if b then (case subscript ip ''users'' of
                         Inl e \<Rightarrow> Inl e
                       | Inr u \<Rightarrow> Inr (truthy P u))
            else Inr False) of
        Inl e \<Rightarrow> Inl e
      | Inr in_use \<Rightarrow>
     (case subscript ip ''address'' of
        Inl e \<Rightarrow> Inl e
      | Inr a \<Rightarrow>
     (case subscript ip ''name'' of
        Inl e \<Rightarrow> Inl e
      | Inr n \<Rightarrow>
          Inr (''   - '' @ fmt P a @ '' (Name: '' @ fmt P n @ '', Status: ''
               @ (if in_use then ''In use'' else ''Not in use'') @ '')'' @ nl)))))"

definition address_findings :: "'f python \<Rightarrow> 'f json \<Rightarrow> error + string" where
  "address_findings P addresses_data =
     (if \<not> truthy P addresses_data then Inr []
      else (case iterate addresses_data of
              Inl e \<Rightarrow> Inl e
            | Inr items \<Rightarrow>
           (case filter_err is_reserved items of
              Inl e \<Rightarrow> Inl e
            | Inr static_ips \<Rightarrow>
                if static_ips = [] then Inr []
                else (case concat_err (ip_line P) static_ips of
                        Inl e \<Rightarrow> Inl e
                      | Inr ls \<Rightarrow>
                          Inr (''1. You have '' @ show_nat (length static_ips)
                               @ '' reserved static external IP addresses:'' @ nl
                               @ ls
                               @ ''   Recommendation: Delete unused static IPs as they incur charges even when not attached to resources.''
                               @ nl)))))"

definition address_part :: "'f python \<Rightarrow> string option \<Rightarrow> error + string" where
  "address_part P addresses =
     (case addresses of
        None \<Rightarrow> Inr (''No external IP addresses found or error retrieving data.'' @ nl)
      | Some s \<Rightarrow>
          if s = [] then Inr (''No external IP addresses found or error retrieving data.'' @ nl)
          else (case json_loads P s of
                  Inl e \<Rightarrow>
                    if e = JSONDecodeError then Inr (''Error parsing IP address data.'' @ nl)
                    else Inl e
                | Inr addresses_data \<Rightarrow> address_findings P addresses_data))"

text \<open>\<^verbatim>\<open>rule['name']\<close>, \<^verbatim>\<open>rule.get('IPAddress', 'N/A')\<close> and
  \<^verbatim>\<open>rule.get('target', 'N/A').split('/')[-1]\<close>, in this order.\<close>

definition rule_line :: "'f python \<Rightarrow> 'f json \<Rightarrow> error + string" where
  "rule_line P rule =
     (case subscript rule ''name'' of
        Inl e \<Rightarrow> Inl e
      | Inr n \<Rightarrow>
     (case py_get rule ''IPAddress'' (JStr ''N/A'') of
        Inl e \<Rightarrow> Inl e
      | Inr a \<Rightarrow>
     (case py_get rule ''target'' (JStr ''N/A'') of
        Inl e \<Rightarrow> Inl e
      | Inr t \<Rightarrow>
     (case split_last t of
        Inl e \<Rightarrow> Inl e
      | Inr ts \<Rightarrow>
          Inr (''   - '' @ fmt P n @ '' (IP: '' @ fmt P a @ '', Target: '' @ ts @ '')'' @ nl)))))"

definition rules_findings :: "'f python \<Rightarrow> 'f json \<Rightarrow> error + string" where
  "rules_findings P rules_data =
     (if \<not> truthy P rules_data then Inr []
      else (case py_len rules_data of
              Inl e \<Rightarrow> Inl e
            | Inr n \<Rightarrow>
           (case iterate rules_data of
              Inl e \<Rightarrow> Inl e
            | Inr items \<Rightarrow>
           (case concat_err (rule_line P) items of
              Inl e \<Rightarrow> Inl e
            | Inr ls \<Rightarrow>
                Inr (''1. You have '' @ show_nat n @ '' load balancer forwarding rules:'' @ nl
                     @ ls
                     @ ''   Recommendation: Load balancers incur hourly charges. Consider consolidating load balancers where possible.''
                     @ nl)))))"

definition rules_part :: "'f python \<Rightarrow> string option \<Rightarrow> error + string" where
  "rules_part P forwarding_rules =
     (case forwarding_rules of
        None \<Rightarrow> Inr (''No load balancers found or error retrieving data.'' @ nl)
      | Some s \<Rightarrow>
          if s = [] then Inr (''No load balancers found or error retrieving data.'' @ nl)
          else (case json_loads P s of
                  Inl e \<Rightarrow>
                    if e = JSONDecodeError then Inr (''Error parsing forwarding rules data.'' @ nl)
                    else Inl e
                | Inr rules_data \<Rightarrow> rules_findings P rules_data))"

definition network_report ::
  "'f python \<Rightarrow> string option \<Rightarrow> string option \<Rightarrow> error + string" where
  "network_report P addresses forwarding_rules =
     (case address_part P addresses of
        Inl e \<Rightarrow> Inl e
      | Inr ap \<Rightarrow>
          (case rules_part P forwarding_rules of
             Inl e \<Rightarrow> Inl e
           | Inr rp \<Rightarrow>
               Inr (network_header
                    @ ''External IP Address Optimization:'' @ nl @ ap
                    @ nl @ ''Load Balancer Optimization:'' @ nl @ rp)))"

definition analyze_network :: "'f python \<Rightarrow> env \<Rightarrow> string list \<times> (error + string)" where
  "analyze_network P E =
     (case run_gcloud E [''compute'', ''addresses'', ''list'', ''--format=json''] of
        (o1, Inl e) \<Rightarrow> (''Analyzing networking resources...'' # o1, Inl e)
      | (o1, Inr addresses) \<Rightarrow>
          (case run_gcloud E [''compute'', ''forwarding-rules'', ''list'', ''--format=json''] of
             (o2, Inl e) \<Rightarrow> (''Analyzing networking resources...'' # o1 @ o2, Inl e)
           | (o2, Inr forwarding_rules) \<Rightarrow>
               (''Analyzing networking resources...'' # o1 @ o2,
                network_report P addresses forwarding_rules)))"

section \<open>analyze_billing and generate_cost_recommendations\<close>

definition billing_header :: string where
  "billing_header = ''BILLING OPTIMIZATION RECOMMENDATIONS:'' @ nl @ sep50 @ nl @ nl"

definition billing_report :: string where
  "billing_report =
     billing_header
     @ ''1. Set up Budget Alerts:'' @ nl
     @ ''   - Create budget alerts to notify you when spending approaches predefined thresholds'' @ nl
     @ ''   - Use the following command to create a budget alert:'' @ nl
     @ ''     gcloud billing budgets create --billing-account=ACCOUNT_ID --display-name=BUDGET_NAME --budget-amount=1000USD --threshold-rules=percent=80'' @ nl
     @ nl
     @ ''2. Export Billing Data to BigQuery:'' @ nl
     @ ''   - Export your billing data to BigQuery for detailed analysis'' @ nl
     @ ''   - Create custom dashboards to track spending by project, service, and label'' @ nl
     @ ''   - Use Data Studio to visualize your spending patterns'' @ nl
     @ nl
     @ ''3. Use Labels for Cost Allocation:'' @ nl
     @ ''   - Apply consistent labels to all resources for better cost tracking'' @ nl
     @ ''   - Example labels: environment (prod, dev, test), team, project, application'' @ nl"

definition analyze_billing :: "string list \<times> string" where
  "analyze_billing = ([''Analyzing billing data...''], billing_report)"

definition general_header :: string where
  "general_header =
     ''GENERAL COST OPTIMIZATION RECOMMENDATIONS:'' @ nl
     @ ''========================================='' @ nl"

definition generate_cost_recommendations :: string where
  "generate_cost_recommendations =
     nl @ general_header
     @ nl
     @ ''1. Resource Rightsizing:'' @ nl
     @ ''   - Regularly review and rightsize your resources based on actual usage patterns'' @ nl
     @ ''   - Use GCP's Recommender API to get automatic rightsizing recommendations'' @ nl
     @ nl
     @ ''2. Committed Use Discounts:'' @ nl
     @ ''   - Purchase committed use contracts for steady-state workloads to save up to 57%'' @ nl
     @ ''   - Analyze your usage patterns to determine optimal commitment levels'' @ nl
     @ nl
     @ ''3. Sustained Use Discounts:'' @ nl
     @ ''   - GCP automatically applies sustained use discounts for resources used for significant portions of the month'' @ nl
     @ ''   - Consolidate workloads to maximize these discounts'' @ nl
     @ nl
     @ ''4. Preemptible VMs:'' @ nl
     @ ''   - Use preemptible VMs for fault-tolerant, batch processing workloads to save up to 80%'' @ nl
     @ ''   - Ensure your applications can handle interruptions'' @ nl
     @ nl
     @ ''5. Storage Optimization:'' @ nl
     @ ''   - Use appropriate storage classes based on access frequency'' @ nl
     @ ''   - Implement lifecycle policies to automatically transition objects to cheaper storage classes'' @ nl
     @ ''   - Delete unnecessary snapshots and unattached persistent disks'' @ nl
     @ nl
     @ ''6. Networking Optimization:'' @ nl
     @ ''   - Avoid using external IPs for internal communication'' @ nl
     @ ''   - Use Cloud NAT for outbound traffic instead of assigning external IPs to each instance'' @ nl
     @ ''   - Delete unused static external IPs'' @ nl
     @ nl
     @ ''7. Budgets and Alerts:'' @ nl
     @ ''   - Set up budget alerts to notify you when spending approaches predefined thresholds'' @ nl
     @ ''   - Use GCP's Cost Explorer to identify cost trends and anomalies'' @ nl
     @ nl
     @ ''8. Scheduled Resources:'' @ nl
     @ ''   - Schedule non-production resources to shut down during off-hours'' @ nl
     @ ''   - Use Cloud Scheduler and Cloud Functions to automate resource management'' @ nl
     @ nl
     @ ''9. Containerization:'' @ nl
     @ ''   - Consider using Google Kubernetes Engine (GKE) to optimize resource utilization'' @ nl
     @ ''   - Use GKE Autopilot to let Google manage capacity provisioning'' @ nl
     @ nl
     @ ''10. Billing Export:'' @ nl
     @ ''    - Export billing data to BigQuery for detailed analysis'' @ nl
     @ ''    - Create custom dashboards to track spending by project, service, and label'' @ nl"

section \<open>main\<close>

text \<open>What a run leaves behind: the lines printed, the content of the report file
  (\<open>None\<close> when it was never opened; what was written so far when an exception ends
  the \<^verbatim>\<open>with\<close> block) and the exception that ended the run, if any. The module
  computes \<^verbatim>\<open>TODAY\<close> once when it is loaded, here the field \<open>today\<close> of the
  environment; creating the reports directory and opening the file are taken to succeed.\<close>

record run =
  printed :: "string list"
  report_file :: "string option"
  raised :: "error option"

definition REPORT_FILE :: "env \<Rightarrow> string" where
  "REPORT_FILE E = ''../reports/gcp_cost_report_'' @ today E @ ''.txt''"

definition banner :: "string list" where
  "banner = [''GCP Cost Optimization Tool'', ''========================='']"

definition auth_hint :: "string list" where
  "auth_hint =
     [''Error: Unable to get project information. Make sure you're authenticated with GCP.'',
      ''Run 'gcloud auth login' to authenticate.'']"

definition preamble :: "env \<Rightarrow> string" where
  "preamble E = ''GCP COST OPTIMIZATION REPORT - '' @ today E @ nl @ sep50 @ nl @ nl"

text \<open>Lines 287 and 288.\<close>

definition project_line :: "'f python \<Rightarrow> 'f json \<Rightarrow> error + string" where
  "project_line P project_info =
     (case contains ''core'' project_info of
        Inl e \<Rightarrow> Inl e
      | Inr b \<Rightarrow>
          if \<not> b then Inr []
          else (case subscript project_info ''core'' of
                  Inl e \<Rightarrow> Inl e
                | Inr c \<Rightarrow>
                    (case contains ''project'' c of
                       Inl e \<Rightarrow> Inl e
                     | Inr b' \<Rightarrow>
                         if \<not> b' then Inr []
                         else (case subscript c ''project'' of
                                 Inl e \<Rightarrow> Inl e
                               | Inr p \<Rightarrow> Inr (''Project: '' @ fmt P p @ nl @ nl)))))"

text \<open>The \<^verbatim>\<open>with\<close> block, lines 283 to 310; \<open>out\<close> is what was printed before it.\<close>

definition write_report :: "'f python \<Rightarrow> env \<Rightarrow> string list \<Rightarrow> 'f json \<Rightarrow> run" where
  "write_report P E out project_info =
     (case project_line P project_info of
        Inl e \<Rightarrow> \<lparr>printed = out, report_file = Some (preamble E), raised = Some e\<rparr>
      | Inr pl \<Rightarrow>
     (case analyze_compute_instances P E of
        (o1, Inl e) \<Rightarrow>
          \<lparr>printed = out @ o1, report_file = Some (preamble E @ pl), raised = Some e\<rparr>
      | (o1, Inr c_rep) \<Rightarrow>
     (case analyze_storage P E of
        (o2, Inl e) \<Rightarrow>
          \<lparr>printed = out @ o1 @ o2,
           report_file = Some (preamble E @ pl @ c_rep @ nl @ nl),
           raised = Some e\<rparr>
      | (o2, Inr s_rep) \<Rightarrow>
     (case analyze_network P E of
        (o3, Inl e) \<Rightarrow>
          \<lparr>printed = out @ o1 @ o2 @ o3,
           report_file = Some (preamble E @ pl @ c_rep @ nl @ nl
                               @ s_rep @ nl @ nl),
           raised = Some e\<rparr>
      | (o3, Inr n_rep) \<Rightarrow>
          \<lparr>printed = out @ o1 @ o2 @ o3 @ fst analyze_billing
                     @ [''Report generated: '' @ REPORT_FILE E,
                        ''To view the report, open it in a text editor.''],
           report_file = Some (preamble E @ pl @ c_rep @ nl @ nl
                               @ s_rep @ nl @ nl
                               @ n_rep @ nl @ nl
                               @ snd analyze_billing @ nl @ nl
                               @ generate_cost_recommendations),
           raised = None\<rparr>))))"

definition main :: "'f python \<Rightarrow> env \<Rightarrow> run" where
  "main P E =
     (case get_project_info P E of
        (o0, Inl e) \<Rightarrow> \<lparr>printed = banner @ o0, report_file = None, raised = Some e\<rparr>
      | (o0, Inr project_info) \<Rightarrow>
          (case project_info of
             None \<Rightarrow> \<lparr>printed = banner @ o0 @ auth_hint, report_file = None, raised = None\<rparr>
           | Some v \<Rightarrow>
               if \<not> truthy P v
               then \<lparr>printed = banner @ o0 @ auth_hint, report_file = None, raised = None\<rparr>
               else write_report P E (banner @ o0) v))"

section \<open>Well-formed listings\<close>

text \<open>A field that is present, and a field that holds a string.\<close>

definition has_field :: "'f json \<Rightarrow> string \<Rightarrow> bool" where
  "has_field v k = (case subscript v k of Inl e \<Rightarrow> False | Inr x \<Rightarrow> True)"

definition str_field :: "'f json \<Rightarrow> string \<Rightarrow> bool" where
  "str_field v k = (case subscript v k of Inr (JStr s) \<Rightarrow> True | _ \<Rightarrow> False)"

definition well_formed_instance :: "'f json \<Rightarrow> bool" where
  "well_formed_instance i =
     (str_field i ''machineType'' \<and> has_field i ''status'' \<and> has_field i ''name''
      \<and> str_field i ''zone'')"


section \<open>Sample inputs\<close>

text \<open>
  A concrete instance of the library parameters and of the environment, for evaluating
  the model on fixed inputs. \<open>sample_loads\<close> is \<^verbatim>\<open>json.loads\<close> on the texts listed
  and a decode error elsewhere; \<open>sample_int_of_str\<close> is \<^verbatim>\<open>int\<close> on a string of
  decimal digits. The sample has no floats.
\<close>

definition is_digit :: "char \<Rightarrow> bool" where
  "is_digit c = ((48::nat) \<le> of_char c \<and> of_char c \<le> (57::nat))"

definition sample_int_of_str :: "string \<Rightarrow> int option" where
  "sample_int_of_str s =
     (if s \<noteq> [] \<and> list_all is_digit s
      then Some (int (foldl (\<lambda>a c. 10 * a + (of_char c - 48)) 0 s))
      else None)"

definition sample_config :: string where
  \<open>sample_config = ''{"core": {"project": "demo"}}''\<close>

definition sample_instances :: string where
  \<open>sample_instances =
     ''[{"name": "vm-a", "machineType": "zones/z1/machineTypes/n1-standard-1", "status": "TERMINATED", "zone": "zones/z1"}, {"name": "vm-b", "machineType": "zones/z1/machineTypes/n2-standard-80", "status": "RUNNING", "zone": "zones/z1"}]''\<close>

definition vm_a :: "unit json" where
  "vm_a = JObj [(''name'', JStr ''vm-a''),
                (''machineType'', JStr ''zones/z1/machineTypes/n1-standard-1''),
                (''status'', JStr ''TERMINATED''),
                (''zone'', JStr ''zones/z1'')]"

definition vm_b :: "unit json" where
  "vm_b = JObj [(''name'', JStr ''vm-b''),
                (''machineType'', JStr ''zones/z1/machineTypes/n2-standard-80''),
                (''status'', JStr ''RUNNING''),
                (''zone'', JStr ''zones/z1'')]"

definition sample_stopped :: string where
  \<open>sample_stopped =
     ''[{"name": "vm-a", "machineType": "zones/z1/machineTypes/n1-standard-1", "status": "TERMINATED", "zone": "zones/z1"}]''\<close>

definition sample_disks :: string where
  \<open>sample_disks =
     ''[{"name": "d1", "sizeGb": "10", "type": "zones/z1/diskTypes/pd-ssd"}, {"name": "d2", "sizeGb": "200", "type": "zones/z1/diskTypes/pd-standard", "users": []}]''\<close>

definition disk_1 :: "unit json" where
  "disk_1 = JObj [(''name'', JStr ''d1''),
                  (''sizeGb'', JStr ''10''),
                  (''type'', JStr ''zones/z1/diskTypes/pd-ssd'')]"

definition disk_2 :: "unit json" where
  "disk_2 = JObj [(''name'', JStr ''d2''),
                  (''sizeGb'', JStr ''200''),
                  (''type'', JStr ''zones/z1/diskTypes/pd-standard''),
                  (''users'', JArr [])]"

definition sample_loads :: "string \<Rightarrow> error + unit json" where
  "sample_loads s =
     (if s = ''[]'' then Inr (JArr [])
      else if s = ''{}'' then Inr (JObj [])
      else if s = ''null'' then Inr JNull
      else if s = sample_config then Inr (JObj [(''core'', JObj [(''project'', JStr ''demo'')])])
      else if s = sample_instances then Inr (JArr [vm_a, vm_b])
      else if s = sample_stopped then Inr (JArr [vm_a])
      else if s = sample_disks then Inr (JArr [disk_1, disk_2])
      else Inl JSONDecodeError)"

definition sample_python :: "unit python" where
  "sample_python =
     \<lparr>json_loads = sample_loads,
      int_of_str = sample_int_of_str,
      int_of_float = (\<lambda>x. Inl ValueError),
      float_truthy = (\<lambda>x. True),
      str_other = (\<lambda>v. [])\<rparr>"






definition sample_env :: "proc \<Rightarrow> proc \<Rightarrow> proc \<Rightarrow> proc \<Rightarrow> proc \<Rightarrow> proc \<Rightarrow> env" where
  "sample_env config instances buckets disks addresses rules =
     \<lparr>gcloud = (\<lambda>args.
        if args = [''config'', ''list'', ''--format=json''] then config
        else if args = [''compute'', ''instances'', ''list'', ''--format=json''] then instances
        else if args = [''storage'', ''ls'', ''--format=json''] then buckets
        else if args = [''compute'', ''disks'', ''list'', ''--format=json''] then disks
        else if args = [''compute'', ''addresses'', ''list'', ''--format=json''] then addresses
        else if args = [''compute'', ''forwarding-rules'', ''list'', ''--format=json''] then rules
        else LaunchFailure),
      today = ''2024-01-15''\<rparr>"

section \<open>Basic facts\<close>

declare show_nat.simps [simp del]

lemma has_fieldE: "has_field v k \<Longrightarrow> \<exists>x. subscript v k = Inr x"
  by (auto simp: has_field_def split: sum.splits)

lemma str_fieldE: "str_field v k \<Longrightarrow> \<exists>s. subscript v k = Inr (JStr s)"
  by (auto simp: str_field_def split: sum.splits json.splits)

lemma run_gcloud_Completed:
  "gcloud E a = Completed s \<Longrightarrow> run_gcloud E a = ([], Inr (Some s))"
  by (simp add: run_gcloud_def)

lemma run_gcloud_CalledProcessError:
  "gcloud E a = CalledProcessError err \<Longrightarrow> snd (run_gcloud E a) = Inr None"
  by (simp add: run_gcloud_def)

lemma analyze_compute_Completed:
  "gcloud E [''compute'', ''instances'', ''list'', ''--format=json''] = Completed s \<Longrightarrow>
   snd (analyze_compute_instances P E) = compute_report P (Some s)"
  by (simp add: analyze_compute_instances_def run_gcloud_Completed)

lemma compute_report_parsed:
  "s \<noteq> [] \<Longrightarrow> json_loads P s = Inr v \<Longrightarrow> truthy P v \<Longrightarrow>
   compute_report P (Some s) = compute_findings P v"
  by (simp add: compute_report_def)

lemma bump_sum: "sum_list (map snd (bump k acc)) = Suc (sum_list (map snd acc))"
  by (induction acc) auto

lemma count_machine_types_sum:
  "count_machine_types xs acc = Inr tbl \<Longrightarrow>
   sum_list (map snd tbl) = sum_list (map snd acc) + length xs"
proof (induction xs arbitrary: acc)
  case Nil
  then show ?case by simp
next
  case (Cons i rest)
  then obtain mt where mt: "machine_type_of i = Inr mt"
    and rec: "count_machine_types rest (bump mt acc) = Inr tbl"
    by (auto split: sum.splits)
  from Cons.IH [OF rec] show ?case by (simp add: bump_sum)
qed

lemma machine_type_of_ok:
  "well_formed_instance i \<Longrightarrow> \<exists>mt. machine_type_of i = Inr mt"
  by (auto simp: well_formed_instance_def machine_type_of_def dest!: str_fieldE)

lemma count_machine_types_ok:
  "\<forall>i\<in>set xs. well_formed_instance i \<Longrightarrow> \<exists>tbl. count_machine_types xs acc = Inr tbl"
proof (induction xs arbitrary: acc)
  case Nil
  then show ?case by simp
next
  case (Cons i rest)
  then obtain mt where "machine_type_of i = Inr mt"
    using machine_type_of_ok by fastforce
  with Cons show ?case by simp
qed

lemma filter_err_total:
  "\<forall>x\<in>set xs. \<exists>b. p x = Inr b \<Longrightarrow> filter_err p xs = Inr (filter (\<lambda>x. p x = Inr True) xs)"
  by (induction xs) auto

lemma concat_err_total:
  "\<forall>x\<in>set xs. \<exists>l. f x = Inr l \<Longrightarrow>
   \<exists>ls. concat_err f xs = Inr (concat ls) \<and> list_all2 (\<lambda>x l. f x = Inr l) xs ls"
proof (induction xs)
  case Nil
  then show ?case by simp
next
  case (Cons x xs)
  then obtain l where l: "f x = Inr l" by auto
  from Cons obtain ls where ls: "concat_err f xs = Inr (concat ls)"
    "list_all2 (\<lambda>x l. f x = Inr l) xs ls" by auto
  have "concat_err f (x # xs) = Inr (concat (l # ls))" using l ls by simp
  moreover have "list_all2 (\<lambda>x l. f x = Inr l) (x # xs) (l # ls)" using l ls by simp
  ultimately show ?case by blast
qed

lemma is_stopped_ok: "well_formed_instance i \<Longrightarrow> \<exists>b. is_stopped i = Inr b"
  by (auto simp: well_formed_instance_def is_stopped_def dest!: has_fieldE)

lemma any_in_str: "\<exists>b. any_in ts (JStr s) = Inr b"
  by (induction ts) auto

lemma is_large_ok: "well_formed_instance i \<Longrightarrow> \<exists>b. is_large i = Inr b"
  by (auto simp: well_formed_instance_def is_large_def any_in_str dest!: str_fieldE)

lemma stopped_line_ok: "well_formed_instance i \<Longrightarrow> \<exists>l. stopped_line P i = Inr l"
  by (auto simp: well_formed_instance_def stopped_line_def dest!: str_fieldE has_fieldE)

lemma large_line_ok: "well_formed_instance i \<Longrightarrow> \<exists>l. large_line P i = Inr l"
  by (auto simp: well_formed_instance_def large_line_def machine_type_of_def
      dest!: str_fieldE has_fieldE)

lemma stopped_block_ok:
  "\<forall>i\<in>set xs. well_formed_instance i \<Longrightarrow> \<exists>b. stopped_block P xs = Inr b"
  using concat_err_total [of xs "stopped_line P"] stopped_line_ok [of _ P]
  by (fastforce simp: stopped_block_def)

lemma large_block_ok:
  "\<forall>i\<in>set xs. well_formed_instance i \<Longrightarrow> \<exists>b. large_block P xs = Inr b"
  using concat_err_total [of xs "large_line P"] large_line_ok [of _ P]
  by (fastforce simp: large_block_def)

text \<open>On a well-formed listing no step raises, and the report has this shape.\<close>

lemma compute_findings_ok:
  assumes wf: "\<forall>i\<in>set xs. well_formed_instance i"
  shows "\<exists>tbl sb lb.
           count_machine_types xs [] = Inr tbl
         \<and> stopped_block P (filter (\<lambda>i. is_stopped i = Inr True) xs) = Inr sb
         \<and> large_block P (filter (\<lambda>i. is_large i = Inr True) xs) = Inr lb
         \<and> compute_findings P (JArr xs) =
             Inr (compute_header @ ''Instance Types Summary:'' @ nl
                  @ concat (map summary_row tbl)
                  @ nl @ ''Optimization Opportunities:'' @ nl @ sb @ lb @ compute_advice)"
proof -
  obtain tbl where tbl: "count_machine_types xs [] = Inr tbl"
    using count_machine_types_ok [OF wf] by blast
  have fs: "filter_err is_stopped xs = Inr (filter (\<lambda>i. is_stopped i = Inr True) xs)"
    using wf is_stopped_ok by (intro filter_err_total) blast
  have fl: "filter_err is_large xs = Inr (filter (\<lambda>i. is_large i = Inr True) xs)"
    using wf is_large_ok by (intro filter_err_total) blast
  obtain sb where sb: "stopped_block P (filter (\<lambda>i. is_stopped i = Inr True) xs) = Inr sb"
    using stopped_block_ok [of "filter (\<lambda>i. is_stopped i = Inr True) xs" P] wf by auto
  obtain lb where lb: "large_block P (filter (\<lambda>i. is_large i = Inr True) xs) = Inr lb"
    using large_block_ok [of "filter (\<lambda>i. is_large i = Inr True) xs" P] wf by auto
  show ?thesis
    using tbl fs fl sb lb by (simp add: compute_findings_def)
qed

lemma sample_env_instances [simp]:
  "gcloud (sample_env c i b d a r) [''compute'', ''instances'', ''list'', ''--format=json''] = i"
  by (simp add: sample_env_def)

lemma sample_loads_instances: "json_loads sample_python sample_instances = Inr (JArr [vm_a, vm_b])"
  by (simp add: sample_python_def sample_loads_def sample_instances_def sample_config_def)

lemma sample_loads_stopped: "json_loads sample_python sample_stopped = Inr (JArr [vm_a])"
  by (simp add: sample_python_def sample_loads_def sample_instances_def sample_config_def
      sample_stopped_def)


lemma sample_loads_empty_list: "json_loads sample_python ''[]'' = Inr (JArr [])"
  by (simp add: sample_python_def sample_loads_def)

lemma sample_loads_empty_object: "json_loads sample_python ''{}'' = Inr (JObj [])"
  by (simp add: sample_python_def sample_loads_def)

lemma sample_loads_not_json: "json_loads sample_python ''not json'' = Inl JSONDecodeError"
  by (simp add: sample_python_def sample_loads_def sample_instances_def sample_config_def
      sample_stopped_def sample_disks_def)

lemma sample_loads_config:
  "json_loads sample_python sample_config =
     Inr (JObj [(''core'', JObj [(''project'', JStr ''demo'')])])"
  by (simp add: sample_python_def sample_loads_def sample_config_def)

lemma vm_a_ok: "well_formed_instance vm_a"
  by (simp add: well_formed_instance_def str_field_def has_field_def vm_a_def)

lemma vm_b_ok: "well_formed_instance vm_b"
  by (simp add: well_formed_instance_def str_field_def has_field_def vm_b_def)

lemma sample_instances_nonempty: "sample_instances \<noteq> []"
  by (simp add: sample_instances_def)

lemma any_in_JStr: "any_in ts (JStr mt) = Inr (\<exists>t\<in>set ts. sublist t mt)"
  by (induction ts) auto

lemma str_split_nonempty: "str_split c s \<noteq> []"
  by (induction s) (auto split: list.splits)

lemma join_Cons: "ws \<noteq> [] \<Longrightarrow> join d (w # ws) = w @ d @ join d ws"
  by (cases ws) auto

lemma join_str_split: "join [c] (str_split c s) = s"
proof (induction s)
  case Nil
  then show ?case by simp
next
  case (Cons x xs)
  obtain w ws where w: "str_split c xs = w # ws"
    using str_split_nonempty [of c xs] by (cases "str_split c xs") auto
  show ?case
  proof (cases "x = c")
    case True
    then show ?thesis using Cons str_split_nonempty [of c xs] by (simp add: join_Cons)
  next
    case False
    with w Cons show ?thesis by (cases ws) auto
  qed
qed

lemma suffix_last_join: "ws \<noteq> [] \<Longrightarrow> suffix (last ws) (join d ws)"
proof (induction ws)
  case Nil
  then show ?case by simp
next
  case (Cons w ws)
  show ?case
  proof (cases ws)
    case Nil
    then show ?thesis by simp
  next
    case (Cons a list)
    with Cons.IH have "suffix (last ws) (join d ws)" by simp
    then have "suffix (last ws) (w @ d @ join d ws)"
      by (metis append_assoc suffix_appendI)
    with Cons show ?thesis by simp
  qed
qed

lemma suffix_last_str_split: "suffix (last (str_split c s)) s"
  using suffix_last_join [OF str_split_nonempty, of c s "[c]"] by (simp add: join_str_split)

lemma sublist_last_segment: "sublist (last_segment s) s"
  unfolding last_segment_def using suffix_last_str_split suffix_imp_sublist by blast

lemma is_large_str:
  "subscript i ''machineType'' = Inr (JStr mt) \<Longrightarrow>
   is_large i = Inr (\<exists>t\<in>set large_types. sublist t mt)"
  by (simp add: is_large_def any_in_JStr)

lemma stopped_line_str:
  "subscript i ''name'' = Inr n \<Longrightarrow> subscript i ''zone'' = Inr (JStr z) \<Longrightarrow>
   stopped_line P i = Inr (''   - '' @ fmt P n @ '' (Zone: '' @ last_segment z @ '')'' @ nl)"
  by (simp add: stopped_line_def)

lemma large_line_str:
  "subscript i ''machineType'' = Inr (JStr mt) \<Longrightarrow> subscript i ''name'' = Inr n \<Longrightarrow>
   subscript i ''zone'' = Inr (JStr z) \<Longrightarrow>
   large_line P i = Inr (''   - '' @ fmt P n @ '' (Type: '' @ last_segment mt @ '', Zone: ''
                         @ last_segment z @ '')'' @ nl)"
  by (simp add: large_line_def machine_type_of_def)

lemma stopped_lines_total:
  assumes "\<forall>i\<in>set xs. well_formed_instance i"
  shows "\<exists>ls. concat_err (stopped_line P) xs = Inr (concat ls)
            \<and> list_all2 (\<lambda>i l. \<exists>n z. subscript i ''name'' = Inr n
                            \<and> subscript i ''zone'' = Inr (JStr z)
                            \<and> l = ''   - '' @ fmt P n @ '' (Zone: '' @ last_segment z @ '')'' @ nl)
                 xs ls"
proof -
  have "\<forall>i\<in>set xs. \<exists>l. stopped_line P i = Inr l"
    using assms stopped_line_ok by blast
  from concat_err_total [OF this] obtain ls where
    c: "concat_err (stopped_line P) xs = Inr (concat ls)"
    and l: "list_all2 (\<lambda>i l. stopped_line P i = Inr l) xs ls" by blast
  have "list_all2 (\<lambda>i l. \<exists>n z. subscript i ''name'' = Inr n
                            \<and> subscript i ''zone'' = Inr (JStr z)
                            \<and> l = ''   - '' @ fmt P n @ '' (Zone: '' @ last_segment z @ '')'' @ nl)
                 xs ls"
  proof (rule list.rel_mono_strong [OF l])
    fix i l
    assume i: "i \<in> set xs" and sl: "stopped_line P i = Inr l"
    from i assms have "well_formed_instance i" by blast
    then obtain n z where "subscript i ''name'' = Inr n" "subscript i ''zone'' = Inr (JStr z)"
      by (auto simp: well_formed_instance_def dest!: str_fieldE has_fieldE)
    with sl show "\<exists>n z. subscript i ''name'' = Inr n \<and> subscript i ''zone'' = Inr (JStr z)
        \<and> l = ''   - '' @ fmt P n @ '' (Zone: '' @ last_segment z @ '')'' @ nl"
      by (auto simp: stopped_line_str)
  qed
  with c show ?thesis by blast
qed

lemma large_lines_total:
  assumes "\<forall>i\<in>set xs. well_formed_instance i"
  shows "\<exists>ls. concat_err (large_line P) xs = Inr (concat ls)
            \<and> list_all2 (\<lambda>i l. \<exists>mt n z. subscript i ''machineType'' = Inr (JStr mt)
                            \<and> subscript i ''name'' = Inr n
                            \<and> subscript i ''zone'' = Inr (JStr z)
                            \<and> l = ''   - '' @ fmt P n @ '' (Type: '' @ last_segment mt
                                  @ '', Zone: '' @ last_segment z @ '')'' @ nl)
                 xs ls"
proof -
  have "\<forall>i\<in>set xs. \<exists>l. large_line P i = Inr l"
    using assms large_line_ok by blast
  from concat_err_total [OF this] obtain ls where
    c: "concat_err (large_line P) xs = Inr (concat ls)"
    and l: "list_all2 (\<lambda>i l. large_line P i = Inr l) xs ls" by blast
  have "list_all2 (\<lambda>i l. \<exists>mt n z. subscript i ''machineType'' = Inr (JStr mt)
                            \<and> subscript i ''name'' = Inr n
                            \<and> subscript i ''zone'' = Inr (JStr z)
                            \<and> l = ''   - '' @ fmt P n @ '' (Type: '' @ last_segment mt
                                  @ '', Zone: '' @ last_segment z @ '')'' @ nl)
                 xs ls"
  proof (rule list.rel_mono_strong [OF l])
    fix i l
    assume i: "i \<in> set xs" and sl: "large_line P i = Inr l"
    from i assms have "well_formed_instance i" by blast
    then obtain mt n z where "subscript i ''machineType'' = Inr (JStr mt)"
      "subscript i ''name'' = Inr n" "subscript i ''zone'' = Inr (JStr z)"
      by (auto simp: well_formed_instance_def dest!: str_fieldE has_fieldE)
    with sl show "\<exists>mt n z. subscript i ''machineType'' = Inr (JStr mt)
        \<and> subscript i ''name'' = Inr n \<and> subscript i ''zone'' = Inr (JStr z)
        \<and> l = ''   - '' @ fmt P n @ '' (Type: '' @ last_segment mt
              @ '', Zone: '' @ last_segment z @ '')'' @ nl"
      by (auto simp: large_line_str)
  qed
  with c show ?thesis by blast
qed

lemma sample_stopped_nonempty: "sample_stopped \<noteq> []"
  by (simp add: sample_stopped_def)

lemma vm_a_status: "subscript vm_a ''status'' = Inr (JStr ''TERMINATED'')"
  by (simp add: vm_a_def)









lemma analyze_storage_fetched:
  assumes "snd (run_gcloud E [''storage'', ''ls'', ''--format=json'']) = Inr buckets"
    and "snd (run_gcloud E [''compute'', ''disks'', ''list'', ''--format=json'']) = Inr disks"
  shows "snd (analyze_storage P E) = storage_report P buckets disks"
  using assms by (auto simp: analyze_storage_def split: prod.splits sum.splits)

lemma sample_env_gcloud [simp]:
  "gcloud (sample_env c i b d a r) [''config'', ''list'', ''--format=json''] = c"
  "gcloud (sample_env c i b d a r) [''storage'', ''ls'', ''--format=json''] = b"
  "gcloud (sample_env c i b d a r) [''compute'', ''disks'', ''list'', ''--format=json''] = d"
  "gcloud (sample_env c i b d a r) [''compute'', ''addresses'', ''list'', ''--format=json''] = a"
  "gcloud (sample_env c i b d a r) [''compute'', ''forwarding-rules'', ''list'', ''--format=json''] = r"
  by (simp_all add: sample_env_def)

lemma run_gcloud_snd_Completed:
  "gcloud E a = Completed s \<Longrightarrow> snd (run_gcloud E a) = Inr (Some s)"
  by (simp add: run_gcloud_def)







lemma disk_part_None:
  "disk_part P None = Inr (''No persistent disks found or error retrieving data.'' @ nl)"
  by (simp add: disk_part_def)

lemma analyze_compute_fetched:
  "snd (run_gcloud E [''compute'', ''instances'', ''list'', ''--format=json'']) = Inr instances \<Longrightarrow>
   snd (analyze_compute_instances P E) = compute_report P instances"
  by (auto simp: analyze_compute_instances_def split: prod.splits sum.splits)

lemma analyze_network_fetched:
  assumes "snd (run_gcloud E [''compute'', ''addresses'', ''list'', ''--format=json'']) = Inr addresses"
    and "snd (run_gcloud E [''compute'', ''forwarding-rules'', ''list'', ''--format=json''])
         = Inr forwarding_rules"
  shows "snd (analyze_network P E) = network_report P addresses forwarding_rules"
  using assms by (auto simp: analyze_network_def split: prod.splits sum.splits)

lemma address_part_no_data:
  "no_data a \<Longrightarrow>
   address_part P a = Inr (''No external IP addresses found or error retrieving data.'' @ nl)"
  by (cases a) (auto simp: address_part_def)

lemma rules_part_no_data:
  "no_data r \<Longrightarrow>
   rules_part P r = Inr (''No load balancers found or error retrieving data.'' @ nl)"
  by (cases r) (auto simp: rules_part_def)

lemma address_part_unparseable:
  "s \<noteq> [] \<Longrightarrow> json_loads P s = Inl JSONDecodeError \<Longrightarrow>
   address_part P (Some s) = Inr (''Error parsing IP address data.'' @ nl)"
  by (simp add: address_part_def)

lemma rules_part_unparseable:
  "s \<noteq> [] \<Longrightarrow> json_loads P s = Inl JSONDecodeError \<Longrightarrow>
   rules_part P (Some s) = Inr (''Error parsing forwarding rules data.'' @ nl)"
  by (simp add: rules_part_def)

lemma address_part_empty:
  "s \<noteq> [] \<Longrightarrow> json_loads P s = Inr (JArr []) \<Longrightarrow> address_part P (Some s) = Inr []"
  by (simp add: address_part_def address_findings_def)

lemma rules_part_empty:
  "s \<noteq> [] \<Longrightarrow> json_loads P s = Inr (JArr []) \<Longrightarrow> rules_part P (Some s) = Inr []"
  by (simp add: rules_part_def rules_findings_def)

lemma get_project_info_Completed:
  "gcloud E [''config'', ''list'', ''--format=json''] = Completed s \<Longrightarrow> s \<noteq> [] \<Longrightarrow>
   get_project_info P E =
     ([''Getting project information...''],
      (case json_loads P s of Inl e \<Rightarrow> Inl e | Inr v \<Rightarrow> Inr (Some v)))"
  by (simp add: get_project_info_def run_gcloud_def)

lemma get_project_info_empty:
  "gcloud E [''config'', ''list'', ''--format=json''] = Completed [] \<Longrightarrow>
   get_project_info P E = ([''Getting project information...''], Inr None)"
  by (simp add: get_project_info_def run_gcloud_def)

lemma get_project_info_failed:
  "gcloud E [''config'', ''list'', ''--format=json''] = CalledProcessError err \<Longrightarrow>
   snd (get_project_info P E) = Inr None"
  by (simp add: get_project_info_def run_gcloud_def)

lemma get_project_info_launch:
  "gcloud E [''config'', ''list'', ''--format=json''] = LaunchFailure \<Longrightarrow>
   snd (get_project_info P E) = Inl OSError"
  by (simp add: get_project_info_def run_gcloud_def)

lemma main_raises:
  "snd (get_project_info P E) = Inl e \<Longrightarrow>
   main P E = \<lparr>printed = banner @ fst (get_project_info P E), report_file = None,
              raised = Some e\<rparr>"
  by (auto simp: main_def split: prod.splits)

lemma main_no_identity:
  "snd (get_project_info P E) = Inr None
   \<or> (\<exists>v. snd (get_project_info P E) = Inr (Some v) \<and> \<not> truthy P v) \<Longrightarrow>
   main P E = \<lparr>printed = banner @ fst (get_project_info P E) @ auth_hint, report_file = None,
              raised = None\<rparr>"
  by (auto simp: main_def split: prod.splits)

lemma main_writes:
  "snd (get_project_info P E) = Inr (Some v) \<Longrightarrow> truthy P v \<Longrightarrow>
   main P E = write_report P E (banner @ fst (get_project_info P E)) v"
  by (auto simp: main_def split: prod.splits)

lemma write_report_opens: "report_file (write_report P E out v) \<noteq> None"
  by (auto simp: write_report_def split: sum.splits prod.splits)

lemma main_completes:
  assumes "snd (get_project_info P E) = Inr (Some v)" and "truthy P v"
    and "project_line P v = Inr pl"
    and "snd (analyze_compute_instances P E) = Inr c"
    and "snd (analyze_storage P E) = Inr s"
    and "snd (analyze_network P E) = Inr n"
  shows "raised (main P E) = None"
    and "report_file (main P E) =
           Some (preamble E @ pl @ c @ nl @ nl @ s @ nl @ nl @ n @ nl @ nl
                 @ billing_report @ nl @ nl @ generate_cost_recommendations)"
  using assms main_writes [of P E v]
  by (auto simp: write_report_def analyze_billing_def split: prod.splits sum.splits)

lemma storage_report_header:
  "storage_report P b d = Inr s \<Longrightarrow> \<exists>s'. s = storage_header @ s'"
  by (auto simp: storage_report_def split: sum.splits)

lemma network_report_header:
  "network_report P a r = Inr n \<Longrightarrow> \<exists>n'. n = network_header @ n'"
  by (auto simp: network_report_def split: sum.splits)

lemma billing_report_header: "\<exists>b'. billing_report = billing_header @ b'"
  unfolding billing_report_def by (rule exI) (rule refl)

lemma general_header_shown: "\<exists>g'. generate_cost_recommendations = nl @ general_header @ g'"
  unfolding generate_cost_recommendations_def by (rule exI) (rule refl)

lemma compute_findings_header:
  "compute_findings P v = Inr c \<Longrightarrow> prefix compute_header c"
  by (auto simp: compute_findings_def split: sum.splits)

lemma compute_report_header:
  "t \<noteq> [] \<Longrightarrow> json_loads P t = Inr v \<Longrightarrow> compute_report P (Some t) = Inr c \<Longrightarrow>
   prefix compute_header c"
  using compute_findings_header [of P v c]
  by (auto simp: compute_report_def split: if_splits)

lemma compute_report_no_data:
  "no_data i \<Longrightarrow>
   compute_report P i = Inr ''No Compute Engine instances found or error retrieving data.''"
  by (cases i) (auto simp: compute_report_def)

lemma compute_report_empty:
  "t \<noteq> [] \<Longrightarrow> json_loads P t = Inr (JArr []) \<Longrightarrow>
   compute_report P (Some t) = Inr (compute_header @ ''No Compute Engine instances found.'' @ nl)"
  by (simp add: compute_report_def)

lemma bucket_part_no_data:
  "no_data b \<Longrightarrow>
   bucket_part P b = Inr (''No Cloud Storage buckets found or error retrieving data.'' @ nl)"
  by (cases b) (auto simp: bucket_part_def)

lemma disk_part_no_data:
  "no_data d \<Longrightarrow>
   disk_part P d = Inr (''No persistent disks found or error retrieving data.'' @ nl)"
  by (cases d) (auto simp: disk_part_def)

lemma storage_report_parts:
  "storage_report P b d = Inr s \<Longrightarrow>
   \<exists>bp dp. bucket_part P b = Inr bp \<and> disk_part P d = Inr dp
          \<and> s = (storage_header @ ''Cloud Storage Optimization:'' @ nl) @ bp
                @ (nl @ ''Persistent Disk Optimization:'' @ nl) @ dp"
  by (auto simp: storage_report_def split: sum.splits)

lemma network_report_parts:
  "network_report P a r = Inr n \<Longrightarrow>
   \<exists>ap rp. address_part P a = Inr ap \<and> rules_part P r = Inr rp
          \<and> n = (network_header @ ''External IP Address Optimization:'' @ nl) @ ap
                @ (nl @ ''Load Balancer Optimization:'' @ nl) @ rp"
  by (auto simp: network_report_def split: sum.splits)

lemma sublist_mid: "sublist x (a @ x @ b)"
  by (rule sublist_appendI)

lemma sublist_end: "sublist x (a @ y @ b @ x)"
proof -
  have "a @ y @ b @ x = (a @ y @ b) @ x @ []" by simp
  then show ?thesis using sublist_appendI [of x "a @ y @ b" "[]"] by simp
qed

lemma storage_no_buckets_line:
  assumes sr: "storage_report P b d = Inr s" and nd: "no_data b"
  shows "sublist (''No Cloud Storage buckets found or error retrieving data.'' @ nl) s"
proof -
  obtain bp dp where bp: "bucket_part P b = Inr bp"
    and s_eq: "s = (storage_header @ ''Cloud Storage Optimization:'' @ nl) @ bp
                @ (nl @ ''Persistent Disk Optimization:'' @ nl) @ dp"
    using storage_report_parts [OF sr] by blast
  have e: "bp = ''No Cloud Storage buckets found or error retrieving data.'' @ nl"
    using bucket_part_no_data [OF nd, of P] bp by simp
  show ?thesis unfolding s_eq e by (rule sublist_mid)
qed

lemma storage_no_disks_line:
  assumes sr: "storage_report P b d = Inr s" and nd: "no_data d"
  shows "sublist (''No persistent disks found or error retrieving data.'' @ nl) s"
proof -
  obtain bp dp where dp: "disk_part P d = Inr dp"
    and s_eq: "s = (storage_header @ ''Cloud Storage Optimization:'' @ nl) @ bp
                @ (nl @ ''Persistent Disk Optimization:'' @ nl) @ dp"
    using storage_report_parts [OF sr] by blast
  have e: "dp = ''No persistent disks found or error retrieving data.'' @ nl"
    using disk_part_no_data [OF nd, of P] dp by simp
  show ?thesis unfolding s_eq e by (rule sublist_end)
qed

lemma network_no_addresses_line:
  assumes nr: "network_report P a r = Inr n" and nd: "no_data a"
  shows "sublist (''No external IP addresses found or error retrieving data.'' @ nl) n"
proof -
  obtain ap rp where ap: "address_part P a = Inr ap"
    and n_eq: "n = (network_header @ ''External IP Address Optimization:'' @ nl) @ ap
                @ (nl @ ''Load Balancer Optimization:'' @ nl) @ rp"
    using network_report_parts [OF nr] by blast
  have e: "ap = ''No external IP addresses found or error retrieving data.'' @ nl"
    using address_part_no_data [OF nd, of P] ap by simp
  show ?thesis unfolding n_eq e by (rule sublist_mid)
qed

lemma network_no_rules_line:
  assumes nr: "network_report P a r = Inr n" and nd: "no_data r"
  shows "sublist (''No load balancers found or error retrieving data.'' @ nl) n"
proof -
  obtain ap rp where rp: "rules_part P r = Inr rp"
    and n_eq: "n = (network_header @ ''External IP Address Optimization:'' @ nl) @ ap
                @ (nl @ ''Load Balancer Optimization:'' @ nl) @ rp"
    using network_report_parts [OF nr] by blast
  have e: "rp = ''No load balancers found or error retrieving data.'' @ nl"
    using rules_part_no_data [OF nd, of P] rp by simp
  show ?thesis unfolding n_eq e by (rule sublist_end)
qed

lemma sample_project_info:
  "snd (get_project_info sample_python (sample_env (Completed sample_config) i b d a r)) =
     Inr (Some (JObj [(''core'', JObj [(''project'', JStr ''demo'')])]))"
proof -
  have "sample_config \<noteq> []" by (simp add: sample_config_def)
  then show ?thesis
    by (simp add: get_project_info_Completed sample_loads_config)
qed

lemma sample_project_line:
  "project_line sample_python (JObj [(''core'', JObj [(''project'', JStr ''demo'')])]) =
     Inr (''Project: demo'' @ nl @ nl)"
  by (simp add: project_line_def)







lemma sample_loads_null: "json_loads sample_python ''null'' = Inr JNull"
  by (simp add: sample_python_def sample_loads_def)

lemma bucket_part_sized:
  "s \<noteq> [] \<Longrightarrow> json_loads P s = Inr v \<Longrightarrow> py_len v = Inr n \<Longrightarrow>
   bucket_part P (Some s) =
     Inr (''1. You have '' @ show_nat n @ '' Cloud Storage buckets.'' @ nl
          @ storage_class_guidance)"
  by (simp add: bucket_part_def)

lemma bucket_part_unsized:
  "s \<noteq> [] \<Longrightarrow> json_loads P s = Inr v \<Longrightarrow> py_len v = Inl e \<Longrightarrow>
   bucket_part P (Some s) = Inl e"
  by (simp add: bucket_part_def)

lemma bucket_part_unparseable:
  "s \<noteq> [] \<Longrightarrow> json_loads P s = Inl JSONDecodeError \<Longrightarrow>
   bucket_part P (Some s) =
     Inr (''1. You have Cloud Storage buckets, but couldn't parse the data.'' @ nl
          @ storage_class_guidance)"
  by (simp add: bucket_part_def)

lemma storage_report_bucket:
  "bucket_part P b = Inr bp \<Longrightarrow>
   storage_report P b d =
     (case disk_part P d of
        Inl e \<Rightarrow> Inl e
      | Inr dp \<Rightarrow>
          Inr (storage_header @ ''Cloud Storage Optimization:'' @ nl @ bp
               @ nl @ ''Persistent Disk Optimization:'' @ nl @ dp))"
  by (simp add: storage_report_def)

lemma storage_report_bucket_raises:
  "bucket_part P b = Inl e \<Longrightarrow> storage_report P b d = Inl e"
  by (simp add: storage_report_def)

lemma show_nat_0: "show_nat 0 = ''0''"
  by code_simp

lemma address_part_returns:
  "no_data a \<or> (\<exists>s. a = Some s \<and> s \<noteq> []
        \<and> (json_loads P s = Inl JSONDecodeError \<or> json_loads P s = Inr (JArr []))) \<Longrightarrow>
   \<exists>ap. address_part P a = Inr ap"
  using address_part_no_data address_part_unparseable address_part_empty by metis

lemma rules_part_returns:
  "no_data r \<or> (\<exists>s. r = Some s \<and> s \<noteq> []
        \<and> (json_loads P s = Inl JSONDecodeError \<or> json_loads P s = Inr (JArr []))) \<Longrightarrow>
   \<exists>rp. rules_part P r = Inr rp"
  using rules_part_no_data rules_part_unparseable rules_part_empty by metis

lemma network_report_parts_eq:
  "address_part P a = Inr ap \<Longrightarrow> rules_part P r = Inr rp \<Longrightarrow>
   network_report P a r =
     Inr (network_header @ ''External IP Address Optimization:'' @ nl @ ap
          @ nl @ ''Load Balancer Optimization:'' @ nl @ rp)"
  by (simp add: network_report_def)

section \<open>The claims\<close>

subsection \<open>C8: empty and malformed compute listings\<close>

text \<open>
  C8. When the instances fetch returns a text that parses to the empty list, the compute
  analyzer returns its header followed by the single line "No Compute Engine instances
  found."; when the text is not valid JSON it returns only the line "Error parsing Compute
  Engine data.", with no header, no summary table and no recommendation.
\<close>

theorem compute_empty_or_malformed:
  assumes "gcloud E [''compute'', ''instances'', ''list'', ''--format=json''] = Completed s"
    and "s \<noteq> []"
  shows "(json_loads P s = Inr (JArr []) \<longrightarrow>
            snd (analyze_compute_instances P E) =
              Inr (''COMPUTE ENGINE OPTIMIZATION RECOMMENDATIONS:'' @ nl @ replicate 50 (CHR ''='')
                   @ nl @ nl @ ''No Compute Engine instances found.'' @ nl))
       \<and> (json_loads P s = Inl JSONDecodeError \<longrightarrow>
            snd (analyze_compute_instances P E) = Inr ''Error parsing Compute Engine data.'')"
  using assms
  by (simp add: analyze_compute_Completed compute_report_def compute_header_def sep50_def)

theorem compute_empty_or_malformed_witness:
  "snd (analyze_compute_instances sample_python
          (sample_env LaunchFailure (Completed ''[]'') LaunchFailure LaunchFailure LaunchFailure
             LaunchFailure)) =
     Inr (''COMPUTE ENGINE OPTIMIZATION RECOMMENDATIONS:'' @ nl @ replicate 50 (CHR ''='')
          @ nl @ nl @ ''No Compute Engine instances found.'' @ nl)
   \<and> snd (analyze_compute_instances sample_python
          (sample_env LaunchFailure (Completed ''not json'') LaunchFailure LaunchFailure
             LaunchFailure LaunchFailure)) =
     Inr ''Error parsing Compute Engine data.''"
  using compute_empty_or_malformed [of "sample_env LaunchFailure (Completed ''[]'') LaunchFailure
      LaunchFailure LaunchFailure LaunchFailure" "''[]''" sample_python]
    compute_empty_or_malformed [of "sample_env LaunchFailure (Completed ''not json'')
      LaunchFailure LaunchFailure LaunchFailure LaunchFailure" "''not json''" sample_python]
  by (simp add: sample_loads_empty_list sample_loads_not_json)

subsection \<open>C5: the machine-type summary counts every instance\<close>

text \<open>
  C5. For a non-empty listing of well-formed instances the analyzer returns a report whose
  summary table is rendered from the tally of \<open>count_machine_types\<close>, and the counts of
  that tally add up to the number of instances.
\<close>

theorem machine_type_counts_sum:
  assumes "gcloud E [''compute'', ''instances'', ''list'', ''--format=json''] = Completed s"
    and "s \<noteq> []"
    and "json_loads P s = Inr (JArr xs)"
    and "xs \<noteq> []"
    and "\<forall>i\<in>set xs. well_formed_instance i"
  shows "\<exists>tbl rest.
           count_machine_types xs [] = Inr tbl
         \<and> sum_list (map snd tbl) = length xs
         \<and> snd (analyze_compute_instances P E) =
             Inr (compute_header @ ''Instance Types Summary:'' @ nl
                  @ concat (map summary_row tbl) @ rest)"
proof -
  from compute_findings_ok [OF assms(5), of P] obtain tbl sb lb where
    tbl: "count_machine_types xs [] = Inr tbl"
    and rep: "compute_findings P (JArr xs) =
             Inr (compute_header @ ''Instance Types Summary:'' @ nl
                  @ concat (map summary_row tbl)
                  @ nl @ ''Optimization Opportunities:'' @ nl @ sb @ lb @ compute_advice)"
    by blast
  have "snd (analyze_compute_instances P E) = compute_findings P (JArr xs)"
    using assms by (simp add: analyze_compute_Completed compute_report_parsed)
  moreover have "sum_list (map snd tbl) = length xs"
    using count_machine_types_sum [OF tbl] by simp
  ultimately show ?thesis using tbl rep by auto
qed

theorem machine_type_counts_sum_witness:
  "\<exists>tbl rest.
     count_machine_types [vm_a, vm_b] [] = Inr tbl
   \<and> sum_list (map snd tbl) = length [vm_a, vm_b]
   \<and> snd (analyze_compute_instances sample_python
            (sample_env LaunchFailure (Completed sample_instances) LaunchFailure LaunchFailure
               LaunchFailure LaunchFailure)) =
       Inr (compute_header @ ''Instance Types Summary:'' @ nl
            @ concat (map summary_row tbl) @ rest)"
  by (rule machine_type_counts_sum [where s = sample_instances])
     (simp_all add: sample_loads_instances vm_a_ok vm_b_ok sample_instances_nonempty)

subsection \<open>C6: a listing of stopped instances\<close>

text \<open>
  C6. For a non-empty listing of well-formed instances whose status is "TERMINATED"
  throughout, the compute report contains the stopped-instances recommendation: its
  heading gives the length of the listing as the count, and it is followed by one line
  per instance, in order, with the name of the instance and the last segment of its zone.
\<close>

theorem all_terminated_listed:
  assumes fetch: "gcloud E [''compute'', ''instances'', ''list'', ''--format=json''] = Completed s"
    and s_ne: "s \<noteq> []"
    and parsed: "json_loads P s = Inr (JArr xs)"
    and nonempty: "xs \<noteq> []"
    and wf: "\<forall>i\<in>set xs. well_formed_instance i"
    and stopped: "\<forall>i\<in>set xs. subscript i ''status'' = Inr (JStr ''TERMINATED'')"
  shows "\<exists>pre lines post.
           snd (analyze_compute_instances P E) =
             Inr (pre @ nl @ ''1. You have '' @ show_nat (length xs)
                  @ '' stopped instances that are still incurring storage costs:'' @ nl
                  @ concat lines
                  @ ''   Recommendation: Delete unused instances to avoid storage charges.'' @ nl
                  @ post)
         \<and> list_all2 (\<lambda>i l. \<exists>n z. subscript i ''name'' = Inr n
                         \<and> subscript i ''zone'' = Inr (JStr z)
                         \<and> l = ''   - '' @ fmt P n @ '' (Zone: '' @ last_segment z @ '')'' @ nl)
              xs lines"
proof -
  from compute_findings_ok [OF wf, of P] obtain tbl sb lb where
    sb: "stopped_block P (filter (\<lambda>i. is_stopped i = Inr True) xs) = Inr sb"
    and rep: "compute_findings P (JArr xs) =
             Inr (compute_header @ ''Instance Types Summary:'' @ nl
                  @ concat (map summary_row tbl)
                  @ nl @ ''Optimization Opportunities:'' @ nl @ sb @ lb @ compute_advice)"
    by blast
  have "filter (\<lambda>i. is_stopped i = Inr True) xs = xs"
    using stopped by (intro filter_True) (simp add: is_stopped_def)
  with sb have sb': "stopped_block P xs = Inr sb" by simp
  from stopped_lines_total [OF wf, of P] obtain ls where
    c: "concat_err (stopped_line P) xs = Inr (concat ls)"
    and l: "list_all2 (\<lambda>i l. \<exists>n z. subscript i ''name'' = Inr n
                         \<and> subscript i ''zone'' = Inr (JStr z)
                         \<and> l = ''   - '' @ fmt P n @ '' (Zone: '' @ last_segment z @ '')'' @ nl)
              xs ls" by blast
  from sb' c nonempty have sb_eq: "sb = nl @ ''1. You have '' @ show_nat (length xs)
                  @ '' stopped instances that are still incurring storage costs:'' @ nl
                  @ concat ls
                  @ ''   Recommendation: Delete unused instances to avoid storage charges.'' @ nl"
    by (simp add: stopped_block_def)
  have "snd (analyze_compute_instances P E) = compute_findings P (JArr xs)"
    using fetch s_ne parsed nonempty by (simp add: analyze_compute_Completed compute_report_parsed)
  with rep sb_eq have "snd (analyze_compute_instances P E) =
      Inr ((compute_header @ ''Instance Types Summary:'' @ nl
                  @ concat (map summary_row tbl)
                  @ nl @ ''Optimization Opportunities:'' @ nl)
           @ nl @ ''1. You have '' @ show_nat (length xs)
                  @ '' stopped instances that are still incurring storage costs:'' @ nl
                  @ concat ls
                  @ ''   Recommendation: Delete unused instances to avoid storage charges.'' @ nl
           @ (lb @ compute_advice))"
    by simp
  with l show ?thesis by blast
qed

theorem all_terminated_listed_witness:
  "\<exists>pre lines post.
     snd (analyze_compute_instances sample_python
            (sample_env LaunchFailure (Completed sample_stopped) LaunchFailure LaunchFailure
               LaunchFailure LaunchFailure)) =
       Inr (pre @ nl @ ''1. You have '' @ show_nat (length [vm_a])
            @ '' stopped instances that are still incurring storage costs:'' @ nl
            @ concat lines
            @ ''   Recommendation: Delete unused instances to avoid storage charges.'' @ nl
            @ post)
   \<and> list_all2 (\<lambda>i l. \<exists>n z. subscript i ''name'' = Inr n
                   \<and> subscript i ''zone'' = Inr (JStr z)
                   \<and> l = ''   - '' @ fmt sample_python n @ '' (Zone: '' @ last_segment z @ '')''
                         @ nl)
        [vm_a] lines"
  by (rule all_terminated_listed [where s = sample_stopped])
     (simp_all add: sample_loads_stopped vm_a_ok sample_stopped_nonempty vm_a_status)

subsection \<open>C1: which instances count as large\<close>

text \<open>
  C1, as stated, fails: the analyzer tests whether a large type name occurs anywhere in
  the machineType string, so an instance of type n2-standard-80, whose final segment is
  none of the six names, is listed among the oversized instances.
\<close>

theorem large_by_final_segment_counterexample:
  "subscript vm_b ''machineType'' = Inr (JStr ''zones/z1/machineTypes/n2-standard-80'')
   \<and> last_segment ''zones/z1/machineTypes/n2-standard-80'' = ''n2-standard-80''
   \<and> ''n2-standard-80'' \<notin> set large_types
   \<and> filter_err is_large [vm_a, vm_b] = Inr [vm_b]
   \<and> (case snd (analyze_compute_instances sample_python
                  (sample_env LaunchFailure (Completed sample_instances) LaunchFailure
                     LaunchFailure LaunchFailure LaunchFailure)) of
         Inl e \<Rightarrow> False
       | Inr report \<Rightarrow>
           sublist (''2. You have 1 large instances that might be oversized:'' @ nl
                    @ ''   - vm-b (Type: n2-standard-80, Zone: z1)'' @ nl) report)"
  by code_simp

text \<open>
  C1, amended. On a non-empty listing of well-formed instances, an instance is selected
  as large exactly when one of the six names is a substring of its machineType string.
  Hence every instance whose final segment is one of the names is selected, and an
  instance whose machineType contains none of the names is not. The oversized block of
  the report is empty when nothing is selected, and otherwise gives the number of selected
  instances and one line for each of them, in the order of the listing.
\<close>

theorem large_selection:
  assumes fetch: "gcloud E [''compute'', ''instances'', ''list'', ''--format=json''] = Completed s"
    and s_ne: "s \<noteq> []"
    and parsed: "json_loads P s = Inr (JArr xs)"
    and nonempty: "xs \<noteq> []"
    and wf: "\<forall>i\<in>set xs. well_formed_instance i"
  shows "\<exists>large pre lb.
           filter_err is_large xs = Inr large
         \<and> large = filter (\<lambda>i. \<exists>mt. subscript i ''machineType'' = Inr (JStr mt)
                              \<and> (\<exists>t\<in>set large_types. sublist t mt)) xs
         \<and> (\<forall>i\<in>set xs. \<forall>mt. subscript i ''machineType'' = Inr (JStr mt)
                \<and> last_segment mt \<in> set large_types \<longrightarrow> i \<in> set large)
         \<and> snd (analyze_compute_instances P E) = Inr (pre @ lb @ compute_advice)
         \<and> (large = [] \<longrightarrow> lb = [])
         \<and> (large \<noteq> [] \<longrightarrow>
              (\<exists>lines.
                 lb = nl @ ''2. You have '' @ show_nat (length large)
                      @ '' large instances that might be oversized:'' @ nl
                      @ concat lines
                      @ ''   Recommendation: Monitor CPU and memory usage and consider downsizing if utilization is low.''
                      @ nl
               \<and> list_all2 (\<lambda>i l. \<exists>mt n z. subscript i ''machineType'' = Inr (JStr mt)
                               \<and> subscript i ''name'' = Inr n
                               \<and> subscript i ''zone'' = Inr (JStr z)
                               \<and> l = ''   - '' @ fmt P n @ '' (Type: '' @ last_segment mt
                                     @ '', Zone: '' @ last_segment z @ '')'' @ nl)
                    large lines))"
proof -
  let ?sel = "\<lambda>i. \<exists>mt. subscript i ''machineType'' = Inr (JStr mt)
                              \<and> (\<exists>t\<in>set large_types. sublist t mt)"
  let ?large = "filter ?sel xs"
  have mt: "\<And>i. i \<in> set xs \<Longrightarrow> \<exists>mt. subscript i ''machineType'' = Inr (JStr mt)"
    using wf by (auto simp: well_formed_instance_def dest!: str_fieldE)
  have sel: "\<And>i. i \<in> set xs \<Longrightarrow> (is_large i = Inr True) = ?sel i"
  proof -
    fix i assume "i \<in> set xs"
    then obtain m where m: "subscript i ''machineType'' = Inr (JStr m)" using mt by blast
    then show "(is_large i = Inr True) = ?sel i" by (simp add: is_large_str)
  qed
  then have feq: "filter (\<lambda>i. is_large i = Inr True) xs = ?large"
    by (intro filter_cong) auto
  have fl: "filter_err is_large xs = Inr ?large"
    using filter_err_total [of xs is_large] wf is_large_ok feq by fastforce
  have seg: "\<forall>i\<in>set xs. \<forall>mt. subscript i ''machineType'' = Inr (JStr mt)
                \<and> last_segment mt \<in> set large_types \<longrightarrow> i \<in> set ?large"
    using sublist_last_segment by fastforce
  from compute_findings_ok [OF wf, of P] obtain tbl sb lb where
    lb: "large_block P (filter (\<lambda>i. is_large i = Inr True) xs) = Inr lb"
    and rep: "compute_findings P (JArr xs) =
             Inr (compute_header @ ''Instance Types Summary:'' @ nl
                  @ concat (map summary_row tbl)
                  @ nl @ ''Optimization Opportunities:'' @ nl @ sb @ lb @ compute_advice)"
    by blast
  from lb feq have lb': "large_block P ?large = Inr lb" by simp
  have wfl: "\<forall>i\<in>set ?large. well_formed_instance i" using wf by auto
  from large_lines_total [OF wfl, of P] obtain ls where
    c: "concat_err (large_line P) ?large = Inr (concat ls)"
    and l: "list_all2 (\<lambda>i l. \<exists>mt n z. subscript i ''machineType'' = Inr (JStr mt)
                            \<and> subscript i ''name'' = Inr n
                            \<and> subscript i ''zone'' = Inr (JStr z)
                            \<and> l = ''   - '' @ fmt P n @ '' (Type: '' @ last_segment mt
                                  @ '', Zone: '' @ last_segment z @ '')'' @ nl)
                 ?large ls" by blast
  have e: "?large = [] \<longrightarrow> lb = []"
    using lb' by (auto simp: large_block_def)
  have ne: "?large \<noteq> [] \<longrightarrow> lb = nl @ ''2. You have '' @ show_nat (length ?large)
                      @ '' large instances that might be oversized:'' @ nl
                      @ concat ls
                      @ ''   Recommendation: Monitor CPU and memory usage and consider downsizing if utilization is low.''
                      @ nl"
    using lb' c by (auto simp: large_block_def)
  have "snd (analyze_compute_instances P E) = compute_findings P (JArr xs)"
    using fetch s_ne parsed nonempty by (simp add: analyze_compute_Completed compute_report_parsed)
  with rep have r: "snd (analyze_compute_instances P E) =
      Inr ((compute_header @ ''Instance Types Summary:'' @ nl
                  @ concat (map summary_row tbl)
                  @ nl @ ''Optimization Opportunities:'' @ nl @ sb) @ lb @ compute_advice)"
    by simp
  show ?thesis
    apply (rule exI [of _ ?large])
    apply (rule exI [of _ "compute_header @ ''Instance Types Summary:'' @ nl
                  @ concat (map summary_row tbl)
                  @ nl @ ''Optimization Opportunities:'' @ nl @ sb"])
    apply (rule exI [of _ lb])
    using fl seg r e ne l by blast
qed

theorem large_selection_witness:
  "\<exists>large pre lb.
           filter_err is_large [vm_a, vm_b] = Inr large
         \<and> large = filter (\<lambda>i. \<exists>mt. subscript i ''machineType'' = Inr (JStr mt)
                              \<and> (\<exists>t\<in>set large_types. sublist t mt)) [vm_a, vm_b]
         \<and> (\<forall>i\<in>set [vm_a, vm_b]. \<forall>mt. subscript i ''machineType'' = Inr (JStr mt)
                \<and> last_segment mt \<in> set large_types \<longrightarrow> i \<in> set large)
         \<and> snd (analyze_compute_instances sample_python
            (sample_env LaunchFailure (Completed sample_instances) LaunchFailure LaunchFailure
               LaunchFailure LaunchFailure)) = Inr (pre @ lb @ compute_advice)
         \<and> (large = [] \<longrightarrow> lb = [])
         \<and> (large \<noteq> [] \<longrightarrow>
              (\<exists>lines.
                 lb = nl @ ''2. You have '' @ show_nat (length large)
                      @ '' large instances that might be oversized:'' @ nl
                      @ concat lines
                      @ ''   Recommendation: Monitor CPU and memory usage and consider downsizing if utilization is low.''
                      @ nl
               \<and> list_all2 (\<lambda>i l. \<exists>mt n z. subscript i ''machineType'' = Inr (JStr mt)
                               \<and> subscript i ''name'' = Inr n
                               \<and> subscript i ''zone'' = Inr (JStr z)
                               \<and> l = ''   - '' @ fmt sample_python n @ '' (Type: '' @ last_segment mt
                                     @ '', Zone: '' @ last_segment z @ '')'' @ nl)
                    large lines))"
  by (rule large_selection [where s = sample_instances])
     (simp_all add: sample_loads_instances vm_a_ok vm_b_ok sample_instances_nonempty)

subsection \<open>C9: project information that does not parse\<close>

text \<open>
  C9, as stated, fails in its last part: the fetch of the project information may return
  data and the run still take the graceful abort. The text "{}" parses to the empty dict,
  which is false in \<^verbatim>\<open>if not project_info\<close>, so the hint is printed and no report is
  written.
\<close>

theorem empty_config_object_counterexample:
  "gcloud (sample_env (Completed ''{}'') (Completed ''[]'') (Completed ''[]'') (Completed ''[]'')
             (Completed ''[]'') (Completed ''[]''))
     [''config'', ''list'', ''--format=json''] = Completed ''{}''
   \<and> json_loads sample_python ''{}'' = Inr (JObj [])
   \<and> main sample_python
        (sample_env (Completed ''{}'') (Completed ''[]'') (Completed ''[]'') (Completed ''[]'')
           (Completed ''[]'') (Completed ''[]'')) =
      \<lparr>printed =
         [''GCP Cost Optimization Tool'', ''========================='',
          ''Getting project information...'',
          ''Error: Unable to get project information. Make sure you're authenticated with GCP.'',
          ''Run 'gcloud auth login' to authenticate.''],
       report_file = None, raised = None\<rparr>"
  by code_simp

text \<open>
  C9, amended. When the project-information fetch succeeds with a non-empty text that is
  not valid JSON, \<^verbatim>\<open>main\<close> ends with the uncaught JSONDecodeError: only the banner and the
  progress line are printed, the hint is not, and no report file is opened. A run ends
  without an exception and without a report file exactly when the fetch returns nothing (a
  failed command or empty text) or its text parses to a value that is false in Python (such
  as the empty dict); such a run prints the authentication hint last.
\<close>

theorem project_info_parse_failure:
  "(\<forall>s. gcloud E [''config'', ''list'', ''--format=json''] = Completed s \<and> s \<noteq> []
        \<and> json_loads P s = Inl JSONDecodeError \<longrightarrow>
        main P E = \<lparr>printed = banner @ [''Getting project information...''],
                    report_file = None, raised = Some JSONDecodeError\<rparr>)
   \<and> ((raised (main P E) = None \<and> report_file (main P E) = None) \<longleftrightarrow>
        (case gcloud E [''config'', ''list'', ''--format=json''] of
           Completed s \<Rightarrow> s = [] \<or> (\<exists>v. json_loads P s = Inr v \<and> \<not> truthy P v)
         | CalledProcessError err \<Rightarrow> True
         | LaunchFailure \<Rightarrow> False))
   \<and> (raised (main P E) = None \<and> report_file (main P E) = None \<longrightarrow>
        (\<exists>out. printed (main P E) = out @ auth_hint))"
proof (intro conjI allI impI)
  fix s
  assume "gcloud E [''config'', ''list'', ''--format=json''] = Completed s \<and> s \<noteq> []
        \<and> json_loads P s = Inl JSONDecodeError"
  then show "main P E = \<lparr>printed = banner @ [''Getting project information...''],
                    report_file = None, raised = Some JSONDecodeError\<rparr>"
    using main_raises [of P E JSONDecodeError] by (simp add: get_project_info_Completed)
next
  show "(raised (main P E) = None \<and> report_file (main P E) = None) \<longleftrightarrow>
        (case gcloud E [''config'', ''list'', ''--format=json''] of
           Completed s \<Rightarrow> s = [] \<or> (\<exists>v. json_loads P s = Inr v \<and> \<not> truthy P v)
         | CalledProcessError err \<Rightarrow> True
         | LaunchFailure \<Rightarrow> False)"
  proof (cases "gcloud E [''config'', ''list'', ''--format=json'']")
    case (Completed s)
    show ?thesis
    proof (cases "s = []")
      case True
      with Completed show ?thesis
        using main_no_identity [of P E] by (simp add: get_project_info_empty)
    next
      case False
      show ?thesis
      proof (cases "json_loads P s")
        case (Inl e)
        with Completed False show ?thesis
          using main_raises [of P E e] by (simp add: get_project_info_Completed)
      next
        case (Inr v)
        show ?thesis
        proof (cases "truthy P v")
          case True
          with Completed False Inr show ?thesis
            using main_writes [of P E v]
              write_report_opens [of P E "banner @ [''Getting project information...'']" v]
            by (auto simp: get_project_info_Completed)
        next
          case no: False
          with Completed False Inr show ?thesis
            using main_no_identity [of P E] by (simp add: get_project_info_Completed)
        qed
      qed
    qed
  next
    case (CalledProcessError err)
    then show ?thesis
      using main_no_identity [of P E] by (simp add: get_project_info_failed)
  next
    case LaunchFailure
    then show ?thesis
      using main_raises [of P E OSError] by (simp add: get_project_info_launch)
  qed
next
  assume a: "raised (main P E) = None \<and> report_file (main P E) = None"
  show "\<exists>out. printed (main P E) = out @ auth_hint"
  proof (cases "snd (get_project_info P E)")
    case (Inl e)
    with a show ?thesis using main_raises [of P E e] by simp
  next
    case (Inr r)
    show ?thesis
    proof (cases "r = None \<or> (\<exists>v. r = Some v \<and> \<not> truthy P v)")
      case True
      with Inr have "main P E = \<lparr>printed = banner @ fst (get_project_info P E) @ auth_hint,
          report_file = None, raised = None\<rparr>"
        by (intro main_no_identity) auto
      then have "printed (main P E) = (banner @ fst (get_project_info P E)) @ auth_hint" by simp
      then show ?thesis by blast
    next
      case False
      then obtain v where "r = Some v" "truthy P v" by auto
      with Inr a show ?thesis
        using main_writes [of P E v]
          write_report_opens [of P E "banner @ fst (get_project_info P E)" v] by auto
    qed
  qed
qed

theorem project_info_parse_failure_witness:
  "main sample_python
     (sample_env (Completed ''not json'') (Completed ''[]'') (Completed ''[]'') (Completed ''[]'')
        (Completed ''[]'') (Completed ''[]'')) =
   \<lparr>printed = banner @ [''Getting project information...''],
    report_file = None, raised = Some JSONDecodeError\<rparr>"
  using project_info_parse_failure [of "sample_env (Completed ''not json'') (Completed ''[]'')
      (Completed ''[]'') (Completed ''[]'') (Completed ''[]'') (Completed ''[]'')" sample_python]
  by (simp add: sample_loads_not_json)

subsection \<open>C3: project identity is not the only condition that ends the run early\<close>

text \<open>
  C3. The claim requires a complete report in every run but the one without project
  identity. When \<^verbatim>\<open>gcloud config list --format=json\<close> succeeds with the text "[core]",
  which is not JSON, \<^verbatim>\<open>get_project_info\<close> lets the JSONDecodeError escape (the three
  analyzers catch it around their own \<^verbatim>\<open>json.loads\<close>): the run ends with that exception,
  prints no hint and writes no report.
\<close>

theorem unparseable_config_aborts:
  "main sample_python
     (sample_env (Completed ''[core]'') (Completed ''[]'') (Completed ''[]'') (Completed ''[]'')
        (Completed ''[]'') (Completed ''[]'')) =
   \<lparr>printed =
      [''GCP Cost Optimization Tool'', ''========================='',
       ''Getting project information...''],
    report_file = None, raised = Some JSONDecodeError\<rparr>"
  by code_simp

subsection \<open>C7: a listing of unattached disks\<close>




subsection \<open>C10: storage-class guidance\<close>

text \<open>
  C10, as stated, fails: not every non-empty text of the bucket fetch leads to the
  guidance. The text "null" parses to None, \<^verbatim>\<open>len(buckets_data)\<close> raises TypeError inside
  a \<^verbatim>\<open>try\<close> that catches JSONDecodeError only, and the analyzer returns no section.
\<close>

theorem bucket_text_null_counterexample:
  "gcloud (sample_env LaunchFailure LaunchFailure (Completed ''null'') (Completed ''[]'')
             LaunchFailure LaunchFailure) [''storage'', ''ls'', ''--format=json'']
     = Completed ''null''
   \<and> json_loads sample_python ''null'' = Inr JNull
   \<and> snd (analyze_storage sample_python
            (sample_env LaunchFailure LaunchFailure (Completed ''null'') (Completed ''[]'')
               LaunchFailure LaunchFailure)) = Inl TypeError"
  by code_simp

text \<open>
  C10, amended. When the bucket fetch returns a non-empty text that is not valid JSON, or
  that parses to a value with a length (a list, also the empty one, an object or a
  string), the storage section, which is returned exactly when the disk part of the same
  call raises nothing, holds a count line (with the length, 0 for the empty list) or the
  "couldn't parse" line, followed by the heading of the storage-class guidance, its four
  class lines and the lifecycle recommendation. When the text parses to a value without a
  length the analyzer raises the TypeError of \<^verbatim>\<open>len\<close>. When the fetch returns nothing,
  the bucket part is the single "No Cloud Storage buckets found" line, without the
  guidance.
\<close>

theorem bucket_guidance:
  assumes fb: "snd (run_gcloud E [''storage'', ''ls'', ''--format=json'']) = Inr buckets"
    and fd: "snd (run_gcloud E [''compute'', ''disks'', ''list'', ''--format=json'']) = Inr disks"
  shows "(\<forall>s v n. buckets = Some s \<and> s \<noteq> [] \<and> json_loads P s = Inr v \<and> py_len v = Inr n \<longrightarrow>
            snd (analyze_storage P E) =
              (case disk_part P disks of
                 Inl e \<Rightarrow> Inl e
               | Inr dp \<Rightarrow>
                   Inr (storage_header @ ''Cloud Storage Optimization:'' @ nl
                        @ ''1. You have '' @ show_nat n @ '' Cloud Storage buckets.'' @ nl
                        @ ''   Storage Class Recommendations:'' @ nl
                        @ ''   - Standard Storage: Use for frequently accessed data (multiple times a month)'' @ nl
                        @ ''   - Nearline Storage: Use for data accessed less than once a month (20% cheaper)'' @ nl
                        @ ''   - Coldline Storage: Use for data accessed less than once a quarter (50% cheaper)'' @ nl
                        @ ''   - Archive Storage: Use for data accessed less than once a year (90% cheaper)'' @ nl
                        @ ''   Recommendation: Set up Object Lifecycle Management to automatically transition objects to cheaper storage classes.'' @ nl
                        @ nl @ ''Persistent Disk Optimization:'' @ nl @ dp)))
       \<and> (\<forall>s. buckets = Some s \<and> s \<noteq> [] \<and> json_loads P s = Inr (JArr []) \<longrightarrow>
            snd (analyze_storage P E) =
              (case disk_part P disks of
                 Inl e \<Rightarrow> Inl e
               | Inr dp \<Rightarrow>
                   Inr (storage_header @ ''Cloud Storage Optimization:'' @ nl
                        @ ''1. You have 0 Cloud Storage buckets.'' @ nl
                        @ ''   Storage Class Recommendations:'' @ nl
                        @ ''   - Standard Storage: Use for frequently accessed data (multiple times a month)'' @ nl
                        @ ''   - Nearline Storage: Use for data accessed less than once a month (20% cheaper)'' @ nl
                        @ ''   - Coldline Storage: Use for data accessed less than once a quarter (50% cheaper)'' @ nl
                        @ ''   - Archive Storage: Use for data accessed less than once a year (90% cheaper)'' @ nl
                        @ ''   Recommendation: Set up Object Lifecycle Management to automatically transition objects to cheaper storage classes.'' @ nl
                        @ nl @ ''Persistent Disk Optimization:'' @ nl @ dp)))
       \<and> (\<forall>s. buckets = Some s \<and> s \<noteq> [] \<and> json_loads P s = Inl JSONDecodeError \<longrightarrow>
            snd (analyze_storage P E) =
              (case disk_part P disks of
                 Inl e \<Rightarrow> Inl e
               | Inr dp \<Rightarrow>
                   Inr (storage_header @ ''Cloud Storage Optimization:'' @ nl
                        @ ''1. You have Cloud Storage buckets, but couldn't parse the data.'' @ nl
                        @ ''   Storage Class Recommendations:'' @ nl
                        @ ''   - Standard Storage: Use for frequently accessed data (multiple times a month)'' @ nl
                        @ ''   - Nearline Storage: Use for data accessed less than once a month (20% cheaper)'' @ nl
                        @ ''   - Coldline Storage: Use for data accessed less than once a quarter (50% cheaper)'' @ nl
                        @ ''   - Archive Storage: Use for data accessed less than once a year (90% cheaper)'' @ nl
                        @ ''   Recommendation: Set up Object Lifecycle Management to automatically transition objects to cheaper storage classes.'' @ nl
                        @ nl @ ''Persistent Disk Optimization:'' @ nl @ dp)))
       \<and> (\<forall>s v e. buckets = Some s \<and> s \<noteq> [] \<and> json_loads P s = Inr v \<and> py_len v = Inl e \<longrightarrow>
            snd (analyze_storage P E) = Inl e)
       \<and> (no_data buckets \<longrightarrow>
            snd (analyze_storage P E) =
              (case disk_part P disks of
                 Inl e \<Rightarrow> Inl e
               | Inr dp \<Rightarrow>
                   Inr (storage_header @ ''Cloud Storage Optimization:'' @ nl
                        @ ''No Cloud Storage buckets found or error retrieving data.'' @ nl
                        @ nl @ ''Persistent Disk Optimization:'' @ nl @ dp)))"
proof -
  have r: "snd (analyze_storage P E) = storage_report P buckets disks"
    using analyze_storage_fetched [OF fb fd] .
  have zero: "show_nat 0 = ''0''" by code_simp
  show ?thesis
  proof (intro conjI allI impI)
    fix s v n
    assume "buckets = Some s \<and> s \<noteq> [] \<and> json_loads P s = Inr v \<and> py_len v = Inr n"
    then have "bucket_part P buckets =
        Inr (''1. You have '' @ show_nat n @ '' Cloud Storage buckets.'' @ nl
             @ storage_class_guidance)"
      using bucket_part_sized [of s P v n] by simp
    from storage_report_bucket [OF this, of disks]
    show "snd (analyze_storage P E) =
              (case disk_part P disks of
                 Inl e \<Rightarrow> Inl e
               | Inr dp \<Rightarrow>
                   Inr (storage_header @ ''Cloud Storage Optimization:'' @ nl
                        @ ''1. You have '' @ show_nat n @ '' Cloud Storage buckets.'' @ nl
                        @ ''   Storage Class Recommendations:'' @ nl
                        @ ''   - Standard Storage: Use for frequently accessed data (multiple times a month)'' @ nl
                        @ ''   - Nearline Storage: Use for data accessed less than once a month (20% cheaper)'' @ nl
                        @ ''   - Coldline Storage: Use for data accessed less than once a quarter (50% cheaper)'' @ nl
                        @ ''   - Archive Storage: Use for data accessed less than once a year (90% cheaper)'' @ nl
                        @ ''   Recommendation: Set up Object Lifecycle Management to automatically transition objects to cheaper storage classes.'' @ nl
                        @ nl @ ''Persistent Disk Optimization:'' @ nl @ dp))"
      by (cases "disk_part P disks") (simp_all add: r storage_class_guidance_def)
  next
    fix s
    assume "buckets = Some s \<and> s \<noteq> [] \<and> json_loads P s = Inr (JArr [])"
    then have "bucket_part P buckets =
        Inr (''1. You have '' @ show_nat 0 @ '' Cloud Storage buckets.'' @ nl
             @ storage_class_guidance)"
      using bucket_part_sized [of s P "JArr []" 0] by simp
    from storage_report_bucket [OF this, of disks]
    show "snd (analyze_storage P E) =
              (case disk_part P disks of
                 Inl e \<Rightarrow> Inl e
               | Inr dp \<Rightarrow>
                   Inr (storage_header @ ''Cloud Storage Optimization:'' @ nl
                        @ ''1. You have 0 Cloud Storage buckets.'' @ nl
                        @ ''   Storage Class Recommendations:'' @ nl
                        @ ''   - Standard Storage: Use for frequently accessed data (multiple times a month)'' @ nl
                        @ ''   - Nearline Storage: Use for data accessed less than once a month (20% cheaper)'' @ nl
                        @ ''   - Coldline Storage: Use for data accessed less than once a quarter (50% cheaper)'' @ nl
                        @ ''   - Archive Storage: Use for data accessed less than once a year (90% cheaper)'' @ nl
                        @ ''   Recommendation: Set up Object Lifecycle Management to automatically transition objects to cheaper storage classes.'' @ nl
                        @ nl @ ''Persistent Disk Optimization:'' @ nl @ dp))"
      by (cases "disk_part P disks") (simp_all add: r storage_class_guidance_def zero)
  next
    fix s
    assume "buckets = Some s \<and> s \<noteq> [] \<and> json_loads P s = Inl JSONDecodeError"
    then have "bucket_part P buckets =
        Inr (''1. You have Cloud Storage buckets, but couldn't parse the data.'' @ nl
             @ storage_class_guidance)"
      using bucket_part_unparseable [of s P] by simp
    from storage_report_bucket [OF this, of disks]
    show "snd (analyze_storage P E) =
              (case disk_part P disks of
                 Inl e \<Rightarrow> Inl e
               | Inr dp \<Rightarrow>
                   Inr (storage_header @ ''Cloud Storage Optimization:'' @ nl
                        @ ''1. You have Cloud Storage buckets, but couldn't parse the data.'' @ nl
                        @ ''   Storage Class Recommendations:'' @ nl
                        @ ''   - Standard Storage: Use for frequently accessed data (multiple times a month)'' @ nl
                        @ ''   - Nearline Storage: Use for data accessed less than once a month (20% cheaper)'' @ nl
                        @ ''   - Coldline Storage: Use for data accessed less than once a quarter (50% cheaper)'' @ nl
                        @ ''   - Archive Storage: Use for data accessed less than once a year (90% cheaper)'' @ nl
                        @ ''   Recommendation: Set up Object Lifecycle Management to automatically transition objects to cheaper storage classes.'' @ nl
                        @ nl @ ''Persistent Disk Optimization:'' @ nl @ dp))"
      by (cases "disk_part P disks") (simp_all add: r storage_class_guidance_def)
  next
    fix s v e
    assume "buckets = Some s \<and> s \<noteq> [] \<and> json_loads P s = Inr v \<and> py_len v = Inl e"
    then have "bucket_part P buckets = Inl e"
      using bucket_part_unsized [of s P v e] by simp
    from storage_report_bucket_raises [OF this, of disks]
    show "snd (analyze_storage P E) = Inl e" by (simp add: r)
  next
    assume "no_data buckets"
    from storage_report_bucket [OF bucket_part_no_data [OF this], of P disks]
    show "snd (analyze_storage P E) =
              (case disk_part P disks of
                 Inl e \<Rightarrow> Inl e
               | Inr dp \<Rightarrow>
                   Inr (storage_header @ ''Cloud Storage Optimization:'' @ nl
                        @ ''No Cloud Storage buckets found or error retrieving data.'' @ nl
                        @ nl @ ''Persistent Disk Optimization:'' @ nl @ dp))"
      by (cases "disk_part P disks") (simp_all add: r)
  qed
qed

theorem bucket_guidance_witness:
  "snd (analyze_storage sample_python
          (sample_env LaunchFailure LaunchFailure (Completed ''[]'')
             (CalledProcessError ''denied'') LaunchFailure LaunchFailure)) =
     Inr (storage_header @ ''Cloud Storage Optimization:'' @ nl
          @ ''1. You have 0 Cloud Storage buckets.'' @ nl
          @ ''   Storage Class Recommendations:'' @ nl
          @ ''   - Standard Storage: Use for frequently accessed data (multiple times a month)'' @ nl
          @ ''   - Nearline Storage: Use for data accessed less than once a month (20% cheaper)'' @ nl
          @ ''   - Coldline Storage: Use for data accessed less than once a quarter (50% cheaper)'' @ nl
          @ ''   - Archive Storage: Use for data accessed less than once a year (90% cheaper)'' @ nl
          @ ''   Recommendation: Set up Object Lifecycle Management to automatically transition objects to cheaper storage classes.'' @ nl
          @ nl @ ''Persistent Disk Optimization:'' @ nl
          @ ''No persistent disks found or error retrieving data.'' @ nl)
   \<and> snd (analyze_storage sample_python
          (sample_env LaunchFailure LaunchFailure (Completed ''not json'')
             (CalledProcessError ''denied'') LaunchFailure LaunchFailure)) =
     Inr (storage_header @ ''Cloud Storage Optimization:'' @ nl
          @ ''1. You have Cloud Storage buckets, but couldn't parse the data.'' @ nl
          @ ''   Storage Class Recommendations:'' @ nl
          @ ''   - Standard Storage: Use for frequently accessed data (multiple times a month)'' @ nl
          @ ''   - Nearline Storage: Use for data accessed less than once a month (20% cheaper)'' @ nl
          @ ''   - Coldline Storage: Use for data accessed less than once a quarter (50% cheaper)'' @ nl
          @ ''   - Archive Storage: Use for data accessed less than once a year (90% cheaper)'' @ nl
          @ ''   Recommendation: Set up Object Lifecycle Management to automatically transition objects to cheaper storage classes.'' @ nl
          @ nl @ ''Persistent Disk Optimization:'' @ nl
          @ ''No persistent disks found or error retrieving data.'' @ nl)
   \<and> snd (analyze_storage sample_python
          (sample_env LaunchFailure LaunchFailure (Completed ''null'')
             (CalledProcessError ''denied'') LaunchFailure LaunchFailure)) = Inl TypeError
   \<and> snd (analyze_storage sample_python
          (sample_env LaunchFailure LaunchFailure (CalledProcessError ''denied'')
             (CalledProcessError ''denied'') LaunchFailure LaunchFailure)) =
     Inr (storage_header @ ''Cloud Storage Optimization:'' @ nl
          @ ''No Cloud Storage buckets found or error retrieving data.'' @ nl
          @ nl @ ''Persistent Disk Optimization:'' @ nl
          @ ''No persistent disks found or error retrieving data.'' @ nl)"
  using bucket_guidance [of "sample_env LaunchFailure LaunchFailure (Completed ''[]'')
             (CalledProcessError ''denied'') LaunchFailure LaunchFailure" "Some ''[]''" None
             sample_python]
    bucket_guidance [of "sample_env LaunchFailure LaunchFailure (Completed ''not json'')
             (CalledProcessError ''denied'') LaunchFailure LaunchFailure" "Some ''not json''" None
             sample_python]
    bucket_guidance [of "sample_env LaunchFailure LaunchFailure (Completed ''null'')
             (CalledProcessError ''denied'') LaunchFailure LaunchFailure" "Some ''null''" None
             sample_python]
    bucket_guidance [of "sample_env LaunchFailure LaunchFailure (CalledProcessError ''denied'')
             (CalledProcessError ''denied'') LaunchFailure LaunchFailure" None None
             sample_python]
  by (simp add: run_gcloud_CalledProcessError run_gcloud_snd_Completed disk_part_None
      sample_loads_empty_list sample_loads_not_json sample_loads_null show_nat_0)

subsection \<open>C4: degraded network listings\<close>

text \<open>
  C4, as stated, fails: a listing that parses to the empty list adds no line at all under
  its sub-heading, and a text that is not valid JSON adds an "Error parsing" line, not a
  "none found" line.
\<close>

theorem empty_network_listing_counterexample:
  "snd (analyze_network sample_python
          (sample_env LaunchFailure LaunchFailure LaunchFailure LaunchFailure
             (Completed ''[]'') (Completed ''[]''))) =
     Inr (''NETWORKING OPTIMIZATION RECOMMENDATIONS:'' @ nl @ replicate 50 (CHR ''='') @ nl @ nl
          @ ''External IP Address Optimization:'' @ nl
          @ nl @ ''Load Balancer Optimization:'' @ nl)
   \<and> snd (analyze_network sample_python
          (sample_env LaunchFailure LaunchFailure LaunchFailure LaunchFailure
             (Completed ''not json'') (Completed ''not json''))) =
     Inr (''NETWORKING OPTIMIZATION RECOMMENDATIONS:'' @ nl @ replicate 50 (CHR ''='') @ nl @ nl
          @ ''External IP Address Optimization:'' @ nl
          @ ''Error parsing IP address data.'' @ nl
          @ nl @ ''Load Balancer Optimization:'' @ nl
          @ ''Error parsing forwarding rules data.'' @ nl)"
  by code_simp

text \<open>
  C4, amended. Each of the two network sub-analyses, whatever the other one's listing is,
  provided the other one raises nothing: when its fetch returns nothing (a failed command
  or empty text) it adds its "No ... found or error retrieving data." line; when the text
  is not valid JSON it adds its "Error parsing ... data." line; when the text parses to
  the empty list it adds nothing under its sub-heading. In each of these cases the
  sub-analysis itself raises nothing, so the section is returned with the other part
  unchanged.
\<close>

theorem network_degraded:
  assumes fa: "snd (run_gcloud E [''compute'', ''addresses'', ''list'', ''--format=json''])
               = Inr addresses"
    and fr: "snd (run_gcloud E [''compute'', ''forwarding-rules'', ''list'', ''--format=json''])
             = Inr forwarding_rules"
  shows "(\<forall>rp. rules_part P forwarding_rules = Inr rp \<longrightarrow>
            (no_data addresses \<longrightarrow>
               snd (analyze_network P E) =
                 Inr (network_header @ ''External IP Address Optimization:'' @ nl
                      @ ''No external IP addresses found or error retrieving data.'' @ nl
                      @ nl @ ''Load Balancer Optimization:'' @ nl @ rp))
          \<and> (\<forall>s. addresses = Some s \<and> s \<noteq> [] \<and> json_loads P s = Inl JSONDecodeError \<longrightarrow>
               snd (analyze_network P E) =
                 Inr (network_header @ ''External IP Address Optimization:'' @ nl
                      @ ''Error parsing IP address data.'' @ nl
                      @ nl @ ''Load Balancer Optimization:'' @ nl @ rp))
          \<and> (\<forall>s. addresses = Some s \<and> s \<noteq> [] \<and> json_loads P s = Inr (JArr []) \<longrightarrow>
               snd (analyze_network P E) =
                 Inr (network_header @ ''External IP Address Optimization:'' @ nl
                      @ nl @ ''Load Balancer Optimization:'' @ nl @ rp)))
       \<and> (\<forall>ap. address_part P addresses = Inr ap \<longrightarrow>
            (no_data forwarding_rules \<longrightarrow>
               snd (analyze_network P E) =
                 Inr (network_header @ ''External IP Address Optimization:'' @ nl @ ap
                      @ nl @ ''Load Balancer Optimization:'' @ nl
                      @ ''No load balancers found or error retrieving data.'' @ nl))
          \<and> (\<forall>s. forwarding_rules = Some s \<and> s \<noteq> []
                   \<and> json_loads P s = Inl JSONDecodeError \<longrightarrow>
               snd (analyze_network P E) =
                 Inr (network_header @ ''External IP Address Optimization:'' @ nl @ ap
                      @ nl @ ''Load Balancer Optimization:'' @ nl
                      @ ''Error parsing forwarding rules data.'' @ nl))
          \<and> (\<forall>s. forwarding_rules = Some s \<and> s \<noteq> [] \<and> json_loads P s = Inr (JArr []) \<longrightarrow>
               snd (analyze_network P E) =
                 Inr (network_header @ ''External IP Address Optimization:'' @ nl @ ap
                      @ nl @ ''Load Balancer Optimization:'' @ nl)))
       \<and> (no_data addresses
            \<or> (\<exists>s. addresses = Some s \<and> s \<noteq> []
                  \<and> (json_loads P s = Inl JSONDecodeError \<or> json_loads P s = Inr (JArr [])))
          \<longrightarrow> (\<exists>ap. address_part P addresses = Inr ap))
       \<and> (no_data forwarding_rules
            \<or> (\<exists>s. forwarding_rules = Some s \<and> s \<noteq> []
                  \<and> (json_loads P s = Inl JSONDecodeError \<or> json_loads P s = Inr (JArr [])))
          \<longrightarrow> (\<exists>rp. rules_part P forwarding_rules = Inr rp))"
proof -
  have r: "snd (analyze_network P E) = network_report P addresses forwarding_rules"
    using analyze_network_fetched [OF fa fr] .
  show ?thesis
  proof (intro conjI allI impI)
    fix rp assume rp: "rules_part P forwarding_rules = Inr rp" and "no_data addresses"
    from network_report_parts_eq [OF address_part_no_data [OF this(2)] rp]
    show "snd (analyze_network P E) =
                 Inr (network_header @ ''External IP Address Optimization:'' @ nl
                      @ ''No external IP addresses found or error retrieving data.'' @ nl
                      @ nl @ ''Load Balancer Optimization:'' @ nl @ rp)"
      by (simp add: r)
  next
    fix rp s assume rp: "rules_part P forwarding_rules = Inr rp"
      and a: "addresses = Some s \<and> s \<noteq> [] \<and> json_loads P s = Inl JSONDecodeError"
    then have "address_part P addresses = Inr (''Error parsing IP address data.'' @ nl)"
      using address_part_unparseable [of s P] by simp
    from network_report_parts_eq [OF this rp]
    show "snd (analyze_network P E) =
                 Inr (network_header @ ''External IP Address Optimization:'' @ nl
                      @ ''Error parsing IP address data.'' @ nl
                      @ nl @ ''Load Balancer Optimization:'' @ nl @ rp)"
      by (simp add: r)
  next
    fix rp s assume rp: "rules_part P forwarding_rules = Inr rp"
      and a: "addresses = Some s \<and> s \<noteq> [] \<and> json_loads P s = Inr (JArr [])"
    then have "address_part P addresses = Inr []"
      using address_part_empty [of s P] by simp
    from network_report_parts_eq [OF this rp]
    show "snd (analyze_network P E) =
                 Inr (network_header @ ''External IP Address Optimization:'' @ nl
                      @ nl @ ''Load Balancer Optimization:'' @ nl @ rp)"
      by (simp add: r)
  next
    fix ap assume ap: "address_part P addresses = Inr ap" and "no_data forwarding_rules"
    from network_report_parts_eq [OF ap rules_part_no_data [OF this(2)]]
    show "snd (analyze_network P E) =
                 Inr (network_header @ ''External IP Address Optimization:'' @ nl @ ap
                      @ nl @ ''Load Balancer Optimization:'' @ nl
                      @ ''No load balancers found or error retrieving data.'' @ nl)"
      by (simp add: r)
  next
    fix ap s assume ap: "address_part P addresses = Inr ap"
      and a: "forwarding_rules = Some s \<and> s \<noteq> [] \<and> json_loads P s = Inl JSONDecodeError"
    then have "rules_part P forwarding_rules = Inr (''Error parsing forwarding rules data.'' @ nl)"
      using rules_part_unparseable [of s P] by simp
    from network_report_parts_eq [OF ap this]
    show "snd (analyze_network P E) =
                 Inr (network_header @ ''External IP Address Optimization:'' @ nl @ ap
                      @ nl @ ''Load Balancer Optimization:'' @ nl
                      @ ''Error parsing forwarding rules data.'' @ nl)"
      by (simp add: r)
  next
    fix ap s assume ap: "address_part P addresses = Inr ap"
      and a: "forwarding_rules = Some s \<and> s \<noteq> [] \<and> json_loads P s = Inr (JArr [])"
    then have "rules_part P forwarding_rules = Inr []"
      using rules_part_empty [of s P] by simp
    from network_report_parts_eq [OF ap this]
    show "snd (analyze_network P E) =
                 Inr (network_header @ ''External IP Address Optimization:'' @ nl @ ap
                      @ nl @ ''Load Balancer Optimization:'' @ nl)"
      by (simp add: r)
  next
    assume "no_data addresses
            \<or> (\<exists>s. addresses = Some s \<and> s \<noteq> []
                  \<and> (json_loads P s = Inl JSONDecodeError \<or> json_loads P s = Inr (JArr [])))"
    then show "\<exists>ap. address_part P addresses = Inr ap" by (rule address_part_returns)
  next
    assume "no_data forwarding_rules
            \<or> (\<exists>s. forwarding_rules = Some s \<and> s \<noteq> []
                  \<and> (json_loads P s = Inl JSONDecodeError \<or> json_loads P s = Inr (JArr [])))"
    then show "\<exists>rp. rules_part P forwarding_rules = Inr rp" by (rule rules_part_returns)
  qed
qed

theorem network_degraded_witness:
  "snd (analyze_network sample_python
          (sample_env LaunchFailure LaunchFailure LaunchFailure LaunchFailure
             (CalledProcessError ''denied'') (Completed ''[]''))) =
     Inr (network_header
          @ ''External IP Address Optimization:'' @ nl
          @ ''No external IP addresses found or error retrieving data.'' @ nl
          @ nl @ ''Load Balancer Optimization:'' @ nl @ [])"
proof -
  let ?E = "sample_env LaunchFailure LaunchFailure LaunchFailure LaunchFailure
               (CalledProcessError ''denied'') (Completed ''[]'')"
  have fa: "snd (run_gcloud ?E [''compute'', ''addresses'', ''list'', ''--format=json'']) = Inr None"
    by (simp add: run_gcloud_CalledProcessError)
  have fr: "snd (run_gcloud ?E [''compute'', ''forwarding-rules'', ''list'', ''--format=json''])
            = Inr (Some ''[]'')"
    by (simp add: run_gcloud_snd_Completed)
  have rp: "rules_part sample_python (Some ''[]'') = Inr []"
    by (simp add: rules_part_empty sample_loads_empty_list)
  have nd: "no_data (None :: string option)" by simp
  from network_degraded [OF fa fr, THEN conjunct1, rule_format, OF rp, THEN conjunct1,
      rule_format, OF nd]
  show ?thesis .
qed

subsection \<open>C2: a failed instances fetch loses the compute header\<close>

text \<open>
  C2. The claim requires all five section headers in the report when a listing fetch
  fails. \<^verbatim>\<open>analyze_compute_instances\<close> returns its "No Compute Engine instances found or
  error retrieving data." line at lines 32 and 33, before the header is built at lines 41
  and 42 (the storage and network analyzers build theirs first). With the instances fetch
  failing and every other listing "[]", the run raises nothing and the report goes from
  the project line and that bare line straight to the storage header: it has four
  section headers, not five.
\<close>

theorem failed_instances_fetch_drops_header:
  "snd (analyze_compute_instances sample_python
          (sample_env (Completed sample_config) (CalledProcessError ''denied'')
             (Completed ''[]'') (Completed ''[]'') (Completed ''[]'') (Completed ''[]''))) =
     Inr ''No Compute Engine instances found or error retrieving data.''
   \<and> raised (main sample_python
            (sample_env (Completed sample_config) (CalledProcessError ''denied'')
               (Completed ''[]'') (Completed ''[]'') (Completed ''[]'') (Completed ''[]'')))
     = None
   \<and> report_file (main sample_python
            (sample_env (Completed sample_config) (CalledProcessError ''denied'')
               (Completed ''[]'') (Completed ''[]'') (Completed ''[]'') (Completed ''[]''))) =
     Some (''GCP COST OPTIMIZATION REPORT - 2024-01-15'' @ nl @ sep50 @ nl @ nl
           @ ''Project: demo'' @ nl @ nl
           @ ''No Compute Engine instances found or error retrieving data.'' @ nl @ nl
           @ ''STORAGE OPTIMIZATION RECOMMENDATIONS:'' @ nl @ sep50 @ nl @ nl
           @ ''Cloud Storage Optimization:'' @ nl
           @ ''1. You have 0 Cloud Storage buckets.'' @ nl
           @ storage_class_guidance
           @ nl @ ''Persistent Disk Optimization:'' @ nl
           @ nl @ nl
           @ ''NETWORKING OPTIMIZATION RECOMMENDATIONS:'' @ nl @ sep50 @ nl @ nl
           @ ''External IP Address Optimization:'' @ nl
           @ nl @ ''Load Balancer Optimization:'' @ nl
           @ nl @ nl
           @ billing_report @ nl @ nl
           @ generate_cost_recommendations)"
proof -
  let ?E = "sample_env (Completed sample_config) (CalledProcessError ''denied'')
               (Completed ''[]'') (Completed ''[]'') (Completed ''[]'') (Completed ''[]'')"
  have tr: "truthy sample_python (JObj [(''core'', JObj [(''project'', JStr ''demo'')])])"
    by simp
  have fi: "snd (run_gcloud ?E [''compute'', ''instances'', ''list'', ''--format=json''])
            = Inr None"
    by (simp add: run_gcloud_CalledProcessError)
  have c: "snd (analyze_compute_instances sample_python ?E) =
             Inr ''No Compute Engine instances found or error retrieving data.''"
    by (simp add: analyze_compute_fetched [OF fi] compute_report_no_data)
  have fb: "snd (run_gcloud ?E [''storage'', ''ls'', ''--format=json'']) = Inr (Some ''[]'')"
    by (simp add: run_gcloud_snd_Completed)
  have fd: "snd (run_gcloud ?E [''compute'', ''disks'', ''list'', ''--format=json''])
            = Inr (Some ''[]'')"
    by (simp add: run_gcloud_snd_Completed)
  have fa: "snd (run_gcloud ?E [''compute'', ''addresses'', ''list'', ''--format=json''])
            = Inr (Some ''[]'')"
    by (simp add: run_gcloud_snd_Completed)
  have fr: "snd (run_gcloud ?E [''compute'', ''forwarding-rules'', ''list'', ''--format=json''])
            = Inr (Some ''[]'')"
    by (simp add: run_gcloud_snd_Completed)
  have bp: "bucket_part sample_python (Some ''[]'') =
              Inr (''1. You have 0 Cloud Storage buckets.'' @ nl @ storage_class_guidance)"
    using bucket_part_sized [of "''[]''" sample_python "JArr []" 0]
    by (simp add: sample_loads_empty_list show_nat_0)
  have dp: "disk_part sample_python (Some ''[]'') = Inr []"
    by (simp add: disk_part_def sample_loads_empty_list disk_findings_def
        unattached_block_def ssd_block_def)
  have s: "snd (analyze_storage sample_python ?E) =
             Inr (storage_header @ ''Cloud Storage Optimization:'' @ nl
                  @ (''1. You have 0 Cloud Storage buckets.'' @ nl @ storage_class_guidance)
                  @ nl @ ''Persistent Disk Optimization:'' @ nl @ [])"
    using analyze_storage_fetched [OF fb fd, of sample_python] bp dp
    by (simp add: storage_report_def)
  have n: "snd (analyze_network sample_python ?E) =
             Inr (network_header @ ''External IP Address Optimization:'' @ nl @ []
                  @ nl @ ''Load Balancer Optimization:'' @ nl @ [])"
    using analyze_network_fetched [OF fa fr, of sample_python]
      network_report_parts_eq [of sample_python "Some ''[]''" "[]" "Some ''[]''" "[]"]
    by (simp add: address_part_empty rules_part_empty sample_loads_empty_list)
  note m = main_completes [OF sample_project_info tr sample_project_line c s n]
  have pre: "preamble ?E = ''GCP COST OPTIMIZATION REPORT - 2024-01-15'' @ nl @ sep50 @ nl @ nl"
    by (simp add: preamble_def sample_env_def)
  show ?thesis
    using c m by (simp add: pre storage_header_def network_header_def)
qed

end
